theory Spec2Isabelle
  imports Complex_Main "HOL-Library.AList" "HOL-Library.Char_ord" "HOL-Library.List_Lexorder"
begin

section \<open>Tensors, exceptions and the learned components\<close>

text \<open>
  The module computes on torch tensors of floats. A tensor of rank 1 is a list of
  reals, a tensor of rank 2 is the list of its rows; float arithmetic is idealised as
  arithmetic on the reals. Index tensors (category codes, perturbation indices) hold
  integers. A Python exception is a value of \<open>exn\<close>, returned on the left of a sum.
\<close>

type_synonym vec = "real list"
type_synonym mat = "real list list"

datatype exn =
    PyException string
  | KeyError string
  | IndexError
  | ValueError string
  | RuntimeError string

text \<open>
  \<open>torch.nn.Embedding(num_embeddings, embedding_dim)\<close>: a table of
  \<open>num_embeddings\<close> rows of width \<open>embedding_dim\<close>. The learned weight is a
  function of row and column, so that the table has its declared shape by construction.
\<close>

record embedding =
  num_embeddings :: nat
  embedding_dim :: nat
  weight :: "nat \<Rightarrow> nat \<Rightarrow> real"

text \<open>The distribution object returned by \<open>DecoderNB\<close>: its mean and its dispersion.\<close>

record nb_dist =
  nb_mu :: mat
  nb_theta :: vec

text \<open>
  The two encoders of \<open>scvi.nn\<close>: \<open>Encoder\<close> returns the triple
  \<open>(qz_m, qz_v, latent)\<close>, \<open>FCLayers\<close> returns the latent code alone.
\<close>

datatype encoder = Encoder "mat \<Rightarrow> mat \<times> mat \<times> mat" | FCLayers "mat \<Rightarrow> mat"

datatype decoder = DecoderGauss "mat \<Rightarrow> mat \<times> mat" | DecoderNB "mat \<Rightarrow> vec \<Rightarrow> nb_dist"

text \<open>
  The networks that \<open>__init__\<close> obtains from \<open>scvi.nn\<close>, \<open>torch.nn\<close> and
  \<open>cpa._utils\<close>, freshly initialised. They are parameters of the model: a network is
  the function it computes. \<open>DrugNetwork\<close> lives in \<open>cpa/_utils.py\<close>; its
  constructor receives the dose-response family as a string and may refuse it.
\<close>

record torch_lib =
  new_Encoder :: "mat \<Rightarrow> mat \<times> mat \<times> mat"
  new_FCLayers :: "mat \<Rightarrow> mat"
  new_l_encoder :: "mat \<Rightarrow> mat"
  new_DecoderGauss :: "mat \<Rightarrow> mat \<times> mat"
  new_DecoderNB :: "mat \<Rightarrow> vec \<Rightarrow> nb_dist"
  randn :: "nat \<Rightarrow> vec"
  new_DrugNetwork :: "nat \<Rightarrow> nat \<Rightarrow> string \<Rightarrow> exn + (int list list \<Rightarrow> mat \<Rightarrow> mat)"
  new_drugs_classifier :: "mat \<Rightarrow> mat"
  new_Embedding_weight :: "string \<Rightarrow> nat \<Rightarrow> nat \<Rightarrow> real"
  new_covars_classifier :: "string \<Rightarrow> mat \<Rightarrow> mat"

section \<open>\<open>CPAModule\<close> (\<open>cpa/_module.py\<close>)\<close>

text \<open>
  The attributes of a constructed module. \<open>covars_encoder\<close> is the dictionary from
  covariate name to its unique values, in insertion order. \<open>l_encoder\<close> and
  \<open>px_r\<close> exist only for \<open>loss_ae = 'nb'\<close>. The two \<open>ModuleDict\<close>s are association
  lists over the keys of \<open>covars_encoder\<close>.
\<close>

record cpa_module =
  n_genes :: nat
  n_drugs :: nat
  n_latent :: nat
  loss_ae :: string
  doser_type :: string
  variational :: bool
  covars_encoder :: "(string \<times> string list) list"
  encoder :: encoder
  l_encoder :: "(mat \<Rightarrow> mat) option"
  decoder :: decoder
  px_r :: "vec option"
  drug_network :: "int list list \<Rightarrow> mat \<Rightarrow> mat"
  drugs_classifier :: "mat \<Rightarrow> mat"
  covars_embedding :: "(string \<times> embedding) list"
  covars_classifiers :: "(string \<times> (mat \<Rightarrow> mat)) list"

text \<open>
  \<open>CPAModule.__init__\<close>. The decoder is chosen by \<open>loss_ae\<close>: \<open>'gauss'\<close> and
  \<open>'mse'\<close> give \<open>DecoderGauss\<close>, \<open>'nb'\<close> gives \<open>DecoderNB\<close> and the dispersion
  parameter, anything else raises. The drug network, the classifiers and the embeddings
  are built afterwards.
\<close>

definition CPAModule_init ::
  "torch_lib \<Rightarrow> nat \<Rightarrow> nat \<Rightarrow> (string \<times> string list) list \<Rightarrow> nat \<Rightarrow> string \<Rightarrow> string \<Rightarrow> bool
     \<Rightarrow> exn + cpa_module" where
  "CPAModule_init lib n_genes' n_drugs' covars_encoder' n_latent' loss_ae' doser_type' variational' =
     (let enc = (if variational' then Encoder (new_Encoder lib) else FCLayers (new_FCLayers lib));
          l_enc = (if loss_ae' = ''nb'' then Some (new_l_encoder lib) else None);
          rest = (\<lambda>dec r.
            case new_DrugNetwork lib n_drugs' n_latent' doser_type' of
              Inl e \<Rightarrow> Inl e
            | Inr net \<Rightarrow> Inr \<lparr>
                n_genes = n_genes', n_drugs = n_drugs', n_latent = n_latent',
                loss_ae = loss_ae', doser_type = doser_type', variational = variational',
                covars_encoder = covars_encoder',
                encoder = enc, l_encoder = l_enc, decoder = dec, px_r = r,
                drug_network = net,
                drugs_classifier = new_drugs_classifier lib,
                covars_embedding =
                  map (\<lambda>(key, unique_covars).
                         (key, \<lparr>num_embeddings = length unique_covars, embedding_dim = n_latent',
                                weight = new_Embedding_weight lib key\<rparr>)) covars_encoder',
                covars_classifiers =
                  map (\<lambda>(key, unique_covars). (key, new_covars_classifier lib key)) covars_encoder'\<rparr>)
      in if loss_ae' \<in> set [''gauss'', ''mse''] then rest (DecoderGauss (new_DecoderGauss lib)) None
         else if loss_ae' = ''nb'' then rest (DecoderNB (new_DecoderNB lib)) (Some (randn lib n_genes'))
         else Inl (PyException ''Invalid Loss function for Autoencoder''))"


subsection \<open>Tensor operations used by the module\<close>

text \<open>
  \<open>Embedding.forward\<close> on a rank-1 index tensor: one table row per index; an index
  outside \<open>0..num_embeddings-1\<close> raises.
\<close>

definition Embedding_forward :: "embedding \<Rightarrow> int list \<Rightarrow> exn + mat" where
  "Embedding_forward E idx =
     (if list_all (\<lambda>i. 0 \<le> i \<and> i < int (num_embeddings E)) idx
      then Inr (map (\<lambda>i. map (weight E (nat i)) [0..<embedding_dim E]) idx)
      else Inl IndexError)"

text \<open>
  \<open>torch.cat(tensors, 0)\<close> of rank-2 tensors: the rows of all tensors, one block after
  the other. An empty list of tensors raises, and so do rows of different widths.
\<close>

definition torch_cat0 :: "mat list \<Rightarrow> exn + mat" where
  "torch_cat0 ts =
     (if ts = [] then Inl (RuntimeError ''torch.cat(): expected a non-empty list of Tensors'')
      else if 1 < length (remdups (map length (concat ts)))
      then Inl (RuntimeError ''Sizes of tensors must match except in dimension 0'')
      else Inr (concat ts))"

text \<open>\<open>t.sum(0)\<close> of a rank-2 tensor: the sum of its rows, a rank-1 tensor.\<close>

definition sum0 :: "mat \<Rightarrow> vec" where
  "sum0 t = (case t of [] \<Rightarrow> [] | r # rs \<Rightarrow> foldl (\<lambda>acc row. map2 (+) acc row) r rs)"

text \<open>
  Elementwise binary operations with torch's broadcasting, for operands of rank at most
  2: two dimensions are compatible when they are equal or one of them is 1, and the
  dimension of size 1 is repeated. A rank-1 operand \<open>v\<close> is the one-row tensor \<open>[v]\<close>.
\<close>

fun sequence :: "(exn + 'a) list \<Rightarrow> exn + 'a list" where
  "sequence [] = Inr []"
| "sequence (Inl e # rs) = Inl e"
| "sequence (Inr a # rs) = (case sequence rs of Inl e \<Rightarrow> Inl e | Inr as \<Rightarrow> Inr (a # as))"

definition bvec :: "(real \<Rightarrow> real \<Rightarrow> real) \<Rightarrow> vec \<Rightarrow> vec \<Rightarrow> exn + vec" where
  "bvec f u v =
     (if length u = length v then Inr (map2 f u v)
      else if length u = 1 then Inr (map (f (hd u)) v)
      else if length v = 1 then Inr (map (\<lambda>a. f a (hd v)) u)
      else Inl (RuntimeError ''The size of tensor a must match the size of tensor b''))"

definition bmat :: "(real \<Rightarrow> real \<Rightarrow> real) \<Rightarrow> mat \<Rightarrow> mat \<Rightarrow> exn + mat" where
  "bmat f a b =
     (if length a = length b then sequence (map2 (bvec f) a b)
      else if length a = 1 then sequence (map (bvec f (hd a)) b)
      else if length b = 1 then sequence (map (\<lambda>r. bvec f r (hd b)) a)
      else Inl (RuntimeError ''The size of tensor a must match the size of tensor b''))"

text \<open>\<open>t.mean()\<close>: the sum of all elements over their number.\<close>

definition tensor_mean :: "mat \<Rightarrow> real" where
  "tensor_mean t = sum_list (concat t) / real (length (concat t))"

subsection \<open>\<open>inference\<close>\<close>

record inference_outputs =
  latent :: mat
  latent_basal :: mat
  dist_qz :: "(mat \<times> mat) option"
  library :: "mat option"
  covars_dict :: "string \<rightharpoonup> int list"

text \<open>
  The loop of \<open>inference\<close> over \<open>self.covars_encoder.items()\<close>: each covariate's
  codes are looked up in that covariate's embedding table, the result (one row per cell)
  is checked by \<open>view(batch_size, n_latent)\<close>, whose value is dropped, and appended.
\<close>

fun latent_covariates_loop ::
  "cpa_module \<Rightarrow> nat \<Rightarrow> (string \<rightharpoonup> int list) \<Rightarrow> string list \<Rightarrow> exn + mat list" where
  "latent_covariates_loop m batch_size cd [] = Inr []"
| "latent_covariates_loop m batch_size cd (covar # rest) =
     (case map_of (covars_embedding m) covar of
        None \<Rightarrow> Inl (KeyError covar)
      | Some E \<Rightarrow>
         (case cd covar of
            None \<Rightarrow> Inl (KeyError covar)
          | Some codes \<Rightarrow>
             (case Embedding_forward E codes of
                Inl e \<Rightarrow> Inl e
              | Inr latent_covar_i \<Rightarrow>
                 if length codes * embedding_dim E \<noteq> batch_size * n_latent m
                 then Inl (RuntimeError ''shape is invalid for input size'')
                 else (case latent_covariates_loop m batch_size cd rest of
                         Inl e \<Rightarrow> Inl e
                       | Inr ls \<Rightarrow> Inr (latent_covar_i # ls)))))"

text \<open>
  \<open>CPAModule.inference\<close>. \<open>__init__\<close> sets \<open>self.variational\<close> and the class of
  \<open>self.encoder\<close> together, so the model branches on the encoder. The covariate
  latents are joined by \<open>torch.cat(latent_covariates, 0).sum(0)\<close> and the three parts
  are added with broadcasting.
\<close>

definition inference ::
  "cpa_module \<Rightarrow> mat \<Rightarrow> int list list \<Rightarrow> mat \<Rightarrow> (string \<rightharpoonup> int list) \<Rightarrow> exn + inference_outputs" where
  "inference m genes drugs doses cd =
     (let batch_size = length genes;
          x = genes;
          (dist_qzbasal, basal) =
            (case encoder m of
               Encoder enc \<Rightarrow> (case enc x of (qz_m, qz_v, z) \<Rightarrow> (Some (qz_m, map (map sqrt) qz_v), z))
             | FCLayers enc \<Rightarrow> (None, enc x))
      in case (if loss_ae m = ''nb''
               then (case l_encoder m of
                       None \<Rightarrow> Inl (PyException ''AttributeError: l_encoder'')
                     | Some l \<Rightarrow> Inr (Some (l x)))
               else Inr None) of
           Inl e \<Rightarrow> Inl e
         | Inr lib_size \<Rightarrow>
            (case latent_covariates_loop m batch_size cd (map fst (covars_encoder m)) of
               Inl e \<Rightarrow> Inl e
             | Inr lcs \<Rightarrow>
                (case torch_cat0 lcs of
                   Inl e \<Rightarrow> Inl e
                 | Inr joined \<Rightarrow>
                    (let latent_covariates = sum0 joined;
                         latent_treatment = drug_network m drugs doses
                     in case bmat (+) basal [latent_covariates] of
                          Inl e \<Rightarrow> Inl e
                        | Inr s \<Rightarrow>
                           (case bmat (+) s latent_treatment of
                              Inl e \<Rightarrow> Inl e
                            | Inr lat \<Rightarrow>
                               Inr \<lparr>latent = lat, latent_basal = basal, dist_qz = dist_qzbasal,
                                    library = lib_size, covars_dict = cd\<rparr>)))))"

subsection \<open>\<open>generative\<close>\<close>

text \<open>
  The dictionary returned by \<open>generative\<close>: \<open>means\<close> and \<open>variances\<close> for the
  Gaussian decoder, \<open>dist_px\<close> for the count decoder. An absent key is \<open>None\<close>.
\<close>

record generative_outputs =
  means :: "mat option"
  variances :: "mat option"
  dist_px :: "nb_dist option"
  drugs_pred :: mat
  covars_pred :: "string \<rightharpoonup> mat"

fun covars_pred_loop :: "cpa_module \<Rightarrow> mat \<Rightarrow> string list \<Rightarrow> (string \<rightharpoonup> mat) \<Rightarrow> exn + (string \<rightharpoonup> mat)" where
  "covars_pred_loop m basal [] acc = Inr acc"
| "covars_pred_loop m basal (covar # rest) acc =
     (case map_of (covars_classifiers m) covar of
        None \<Rightarrow> Inl (KeyError covar)
      | Some clf \<Rightarrow> covars_pred_loop m basal rest (acc(covar \<mapsto> clf basal)))"

definition generative :: "cpa_module \<Rightarrow> mat \<Rightarrow> mat \<Rightarrow> exn + generative_outputs" where
  "generative m lat basal =
     (let dp = drugs_classifier m basal
      in case covars_pred_loop m basal (map fst (covars_encoder m)) Map.empty of
           Inl e \<Rightarrow> Inl e
         | Inr cp \<Rightarrow>
            if loss_ae m = ''nb''
            then (case px_r m of
                    None \<Rightarrow> Inl (PyException ''AttributeError: px_r'')
                  | Some r \<Rightarrow>
                     (case decoder m of
                        DecoderNB dec \<Rightarrow>
                          Inr \<lparr>means = None, variances = None, dist_px = Some (dec lat r),
                               drugs_pred = dp, covars_pred = cp\<rparr>
                      | DecoderGauss dec \<Rightarrow> Inl (PyException ''TypeError: unexpected keyword px_r'')))
            else (case decoder m of
                    DecoderGauss dec \<Rightarrow>
                      (case dec lat of (mu, var) \<Rightarrow>
                         Inr \<lparr>means = Some mu, variances = Some var, dist_px = None,
                              drugs_pred = dp, covars_pred = cp\<rparr>)
                  | DecoderNB dec \<Rightarrow> Inl (PyException ''TypeError: missing argument px_r'')))"

subsection \<open>\<open>loss\<close>\<close>

text \<open>
  A batch as the data loader hands it over: the expression matrix under \<open>X_KEY\<close>, the
  perturbation indices and dosages, and one column of category codes per covariate.
\<close>

record tensors =
  X :: mat
  drug_name :: "int list list"
  dose_value :: mat
  covars :: "string \<rightharpoonup> int list list"

text \<open>
  \<open>CPAModule.loss\<close>. \<open>means\<close> and \<open>variances\<close> are read from the generative outputs
  before the likelihood is looked at; only \<open>'gauss'\<close> and \<open>'mse'\<close> have a branch.
\<close>

definition loss :: "cpa_module \<Rightarrow> tensors \<Rightarrow> inference_outputs \<Rightarrow> generative_outputs \<Rightarrow> exn + real" where
  "loss m t inf_out gen_out =
     (let x = X t
      in case means gen_out of
           None \<Rightarrow> Inl (KeyError ''means'')
         | Some mu \<Rightarrow>
            (case variances gen_out of
               None \<Rightarrow> Inl (KeyError ''variances'')
             | Some var \<Rightarrow>
                if loss_ae m \<in> set [''gauss'', ''mse'']
                then (let term1 = map (map (\<lambda>v. ln v / 2)) var
                      in case bmat (-) x mu of
                           Inl e \<Rightarrow> Inl e
                         | Inr d \<Rightarrow>
                            (case bmat (/) (map (map (\<lambda>a. a ^ 2)) d) (map (map (\<lambda>v. v * 2)) var) of
                               Inl e \<Rightarrow> Inl e
                             | Inr term2 \<Rightarrow>
                                (case bmat (+) term1 term2 of
                                   Inl e \<Rightarrow> Inl e
                                 | Inr s \<Rightarrow> Inr (tensor_mean s))))
                else Inl (PyException ''Invalid Loss function for CPA'')))"

text \<open>
  The reconstruction loss as the specification words it: per element
  \<open>0.5*log(variance) + (x-mean)^2/(2*variance)\<close>, averaged over all batch by gene
  elements.
\<close>

definition gauss_nll_spec :: "real \<Rightarrow> real \<Rightarrow> real \<Rightarrow> real" where
  "gauss_nll_spec x mu var = 0.5 * ln var + (x - mu) ^ 2 / (2 * var)"

definition reconstruction_loss_spec :: "nat \<Rightarrow> nat \<Rightarrow> mat \<Rightarrow> mat \<Rightarrow> mat \<Rightarrow> real" where
  "reconstruction_loss_spec B G x mu var =
     (\<Sum>i<B. \<Sum>j<G. gauss_nll_spec (x ! i ! j) (mu ! i ! j) (var ! i ! j)) / real (B * G)"

text \<open>A rank-2 tensor of shape \<open>(B, G)\<close>.\<close>

definition has_shape :: "nat \<Rightarrow> nat \<Rightarrow> 'a list list \<Rightarrow> bool" where
  "has_shape B G t = (length t = B \<and> list_all (\<lambda>r. length r = G) t)"

subsection \<open>\<open>adversarial_loss\<close>\<close>

text \<open>
  What \<open>adversarial_loss\<close> takes from torch: the cross-entropy of logits against
  integer targets, and \<open>torch.autograd.grad(outputs.sum(), inputs, create_graph=True)[0]\<close>.
  The autograd graph hangs on the tensors, so the gradient is an oracle of the two
  tensors. Both may raise.
\<close>

record torch_fn =
  CrossEntropyLoss :: "mat \<Rightarrow> int list \<Rightarrow> exn + real"
  autograd_grad :: "mat \<Rightarrow> mat \<Rightarrow> exn + mat"

text \<open>The first loop: \<open>adv_results[f'adv_{covar}'] = self.adv_loss_covariates(...)\<close>.\<close>

fun adv_loop ::
  "torch_fn \<Rightarrow> (string \<rightharpoonup> mat) \<Rightarrow> (string \<rightharpoonup> int list) \<Rightarrow> string list \<Rightarrow> (string \<rightharpoonup> real)
     \<Rightarrow> exn + (string \<rightharpoonup> real)" where
  "adv_loop fn cp cd [] adv_results = Inr adv_results"
| "adv_loop fn cp cd (covar # rest) adv_results =
     (case cp covar of
        None \<Rightarrow> Inl (KeyError covar)
      | Some pred \<Rightarrow>
         (case cd covar of
            None \<Rightarrow> Inl (KeyError covar)
          | Some codes \<Rightarrow>
             (case CrossEntropyLoss fn pred codes of
                Inl e \<Rightarrow> Inl e
              | Inr l \<Rightarrow> adv_loop fn cp cd rest (adv_results(''adv_'' @ covar \<mapsto> l)))))"

text \<open>The second loop: the gradient penalty of each covariate head.\<close>

definition penalty :: "torch_fn \<Rightarrow> mat \<Rightarrow> mat \<Rightarrow> exn + real" where
  "penalty fn pred basal =
     (case autograd_grad fn pred basal of
        Inl e \<Rightarrow> Inl e
      | Inr g \<Rightarrow> Inr (tensor_mean (map (map (\<lambda>a. a ^ 2)) g)))"

fun penalty_loop ::
  "torch_fn \<Rightarrow> (string \<rightharpoonup> mat) \<Rightarrow> mat \<Rightarrow> string list \<Rightarrow> (string \<rightharpoonup> real)
     \<Rightarrow> exn + (string \<rightharpoonup> real)" where
  "penalty_loop fn cp basal [] adv_results = Inr adv_results"
| "penalty_loop fn cp basal (covar # rest) adv_results =
     (case cp covar of
        None \<Rightarrow> Inl (KeyError covar)
      | Some pred \<Rightarrow>
         (case penalty fn pred basal of
            Inl e \<Rightarrow> Inl e
          | Inr l \<Rightarrow> penalty_loop fn cp basal rest (adv_results(''penalty_'' @ covar \<mapsto> l))))"

text \<open>
  The list comprehension \<open>[adv_results[k] for k in ks]\<close> and Python's \<open>sum\<close>, which
  adds from the left starting at 0.
\<close>

fun getitems :: "(string \<rightharpoonup> 'a) \<Rightarrow> string list \<Rightarrow> exn + 'a list" where
  "getitems d [] = Inr []"
| "getitems d (k # ks) =
     (case d k of
        None \<Rightarrow> Inl (KeyError k)
      | Some v \<Rightarrow> (case getitems d ks of Inl e \<Rightarrow> Inl e | Inr vs \<Rightarrow> Inr (v # vs)))"

definition py_sum :: "real list \<Rightarrow> real" where
  "py_sum xs = foldl (+) 0 xs"

definition adversarial_loss ::
  "torch_fn \<Rightarrow> cpa_module \<Rightarrow> tensors \<Rightarrow> inference_outputs \<Rightarrow> generative_outputs
     \<Rightarrow> exn + (string \<rightharpoonup> real)" where
  "adversarial_loss fn m t inf_out gen_out =
     (let drugs = concat (drug_name t);
          basal = latent_basal inf_out;
          cd = covars_dict inf_out;
          dp = drugs_pred gen_out;
          cp = covars_pred gen_out;
          keys = map fst (covars_encoder m)
      in case adv_loop fn cp cd keys Map.empty of
           Inl e \<Rightarrow> Inl e
         | Inr r1 \<Rightarrow>
      (case CrossEntropyLoss fn dp drugs of
           Inl e \<Rightarrow> Inl e
         | Inr l \<Rightarrow>
      (let r2 = r1(''adv_drugs'' \<mapsto> l)
       in case getitems r2 (''adv_drugs'' # map (\<lambda>key. ''adv_'' @ key) keys) of
           Inl e \<Rightarrow> Inl e
         | Inr vs \<Rightarrow>
      (let r3 = r2(''adv_loss'' \<mapsto> hd vs + py_sum (tl vs))
       in case penalty_loop fn cp basal keys r3 of
           Inl e \<Rightarrow> Inl e
         | Inr r4 \<Rightarrow>
      (case penalty fn dp basal of
           Inl e \<Rightarrow> Inl e
         | Inr pl \<Rightarrow>
      (let r5 = r4(''penalty_drugs'' \<mapsto> pl)
       in case getitems r5 (''penalty_drugs'' # map (\<lambda>covar. ''penalty_'' @ covar) keys) of
           Inl e \<Rightarrow> Inl e
         | Inr ps \<Rightarrow> Inr (r5(''penalty_adv'' \<mapsto> hd ps + py_sum (tl ps)))))))))"

subsection \<open>\<open>disentanglement\<close>\<close>

text \<open>
  What \<open>disentanglement\<close> takes from scikit-learn: \<open>cross_val_score\<close> of a logistic
  regression with the balanced-accuracy scorer, as a function of the features, the
  labels and \<open>cv\<close>, returning the array of fold scores or raising; and
  \<open>StandardScaler().fit_transform\<close>. Each call of \<open>cross_val_score\<close> is logged with
  its arguments.
\<close>

record sklearn =
  cross_val_score :: "mat \<Rightarrow> int list \<Rightarrow> nat \<Rightarrow> exn + real list"
  fit_transform :: "mat \<Rightarrow> mat"

type_synonym cv_call = "mat \<times> int list \<times> nat"

definition np_mean :: "real list \<Rightarrow> real" where
  "np_mean xs = sum_list xs / real (length xs)"

definition np_unique :: "'a::linorder list \<Rightarrow> 'a list" where
  "np_unique xs = sort (remdups xs)"

text \<open>\<open>cross_val_score(classifier, StandardScaler().fit_transform(feats), y, cv=k).mean()\<close>\<close>

definition cv_mean_score ::
  "sklearn \<Rightarrow> mat \<Rightarrow> int list \<Rightarrow> nat \<Rightarrow> cv_call list \<Rightarrow> (exn + real) \<times> cv_call list" where
  "cv_mean_score sk feats y k calls =
     (let scaled = fit_transform sk feats
      in (case cross_val_score sk scaled y k of Inl e \<Rightarrow> Inl e | Inr folds \<Rightarrow> Inr (np_mean folds),
          calls @ [(scaled, y, k)]))"

text \<open>
  The loop over \<open>self.covars_encoder.items()\<close>, run once on each latent code: a
  covariate with more than one registered value adds its mean score to the running
  score.
\<close>

fun covar_scores_loop ::
  "sklearn \<Rightarrow> tensors \<Rightarrow> mat \<Rightarrow> (string \<times> string list) list \<Rightarrow> real \<Rightarrow> cv_call list
     \<Rightarrow> (exn + real) \<times> cv_call list" where
  "covar_scores_loop sk t feats [] scores calls = (Inr scores, calls)"
| "covar_scores_loop sk t feats ((covar, unique_covars) # rest) scores calls =
     (if length unique_covars > 1
      then (case covars t covar of
              None \<Rightarrow> (Inl (KeyError covar), calls)
            | Some target \<Rightarrow>
               (let target_covars = concat target
                in case cv_mean_score sk feats target_covars
                          (min 5 (length (np_unique target_covars))) calls of
                     (Inl e, calls') \<Rightarrow> (Inl e, calls')
                   | (Inr s, calls') \<Rightarrow> covar_scores_loop sk t feats rest (scores + s) calls'))
      else covar_scores_loop sk t feats rest scores calls)"

definition disentanglement ::
  "sklearn \<Rightarrow> cpa_module \<Rightarrow> tensors \<Rightarrow> inference_outputs \<Rightarrow> (exn + real \<times> real) \<times> cv_call list" where
  "disentanglement sk m t inf_out =
     (let basal = latent_basal inf_out;
          lat = latent inf_out;
          drug_names = concat (drug_name t)
      in case cv_mean_score sk basal drug_names (min 5 (length (np_unique drug_names))) [] of
           (Inl e, calls1) \<Rightarrow> (Inl e, calls1)
         | (Inr s0, calls1) \<Rightarrow>
      (case covar_scores_loop sk t basal (covars_encoder m) s0 calls1 of
           (Inl e, calls2) \<Rightarrow> (Inl e, calls2)
         | (Inr pert_basal_scores, calls2) \<Rightarrow>
      (case cv_mean_score sk lat drug_names 5 calls2 of
           (Inl e, calls3) \<Rightarrow> (Inl e, calls3)
         | (Inr p0, calls3) \<Rightarrow>
      (case covar_scores_loop sk t lat (covars_encoder m) p0 calls3 of
           (Inl e, calls4) \<Rightarrow> (Inl e, calls4)
         | (Inr pert_scores, calls4) \<Rightarrow> (Inr (pert_basal_scores, pert_scores), calls4)))))"

text \<open>The \<open>cv\<close> arguments of the logged calls.\<close>

definition cv_of :: "cv_call \<Rightarrow> nat" where
  "cv_of c = snd (snd c)"

definition labels_of :: "cv_call \<Rightarrow> int list" where
  "labels_of c = fst (snd c)"

text \<open>The covariates that \<open>disentanglement\<close> scores: those with more than one registered value.\<close>

definition scored_covars :: "cpa_module \<Rightarrow> (string \<times> string list) list" where
  "scored_covars m = filter (\<lambda>(covar, unique_covars). length unique_covars > 1) (covars_encoder m)"

text \<open>
  The fold scores that the loop obtains for one covariate on the features \<open>feats\<close>:
  the result of its \<open>cross_val_score\<close> call, or the \<open>KeyError\<close> of a batch without
  that covariate.
\<close>

definition covar_folds :: "sklearn \<Rightarrow> tensors \<Rightarrow> mat \<Rightarrow> string \<times> string list \<Rightarrow> exn + real list" where
  "covar_folds sk t feats ce =
     (case covars t (fst ce) of
        None \<Rightarrow> Inl (KeyError (fst ce))
      | Some target \<Rightarrow>
          cross_val_score sk (fit_transform sk feats) (concat target)
            (min 5 (length (np_unique (concat target)))))"

subsection \<open>The perturbation network\<close>

text \<open>
  Modelled from the spec: the perturbation network, class \<open>DrugNetwork\<close> of
  \<open>cpa/_utils.py\<close>, which is not among the sources (only its construction in
  \<open>CPAModule.__init__\<close> and its calls are). Section 4.1 of the specification: each
  perturbation index is embedded; a dose-response function of a configurable family
  (linear, sigmoid, log-sigmoid, small feed-forward network) turns the dosage into a
  multiplier; each slot's embedding is scaled by its dose response and the slots of a
  combination are summed, the padding index contributing zero; a dosage of exactly 0
  yields a zero contribution whatever the family. The learned dose response is a
  parameter: a function of family, perturbation, dosage and latent coordinate.
\<close>

datatype doser_family = Linear | Sigmoid | LogSigmoid | MLP

record drug_network_spec =
  dn_family :: doser_family
  dn_padding_idx :: int
  dn_embedding :: embedding
  dn_dose_response :: "doser_family \<Rightarrow> int \<Rightarrow> real \<Rightarrow> nat \<Rightarrow> real"

definition slot_contribution :: "drug_network_spec \<Rightarrow> int \<Rightarrow> real \<Rightarrow> vec" where
  "slot_contribution net idx dose =
     map (\<lambda>j. if idx = dn_padding_idx net \<or> dose = 0 then 0
              else dn_dose_response net (dn_family net) idx dose j * weight (dn_embedding net) (nat idx) j)
         [0..<embedding_dim (dn_embedding net)]"

definition drug_network_cell :: "drug_network_spec \<Rightarrow> int list \<Rightarrow> real list \<Rightarrow> vec" where
  "drug_network_cell net drugs doses =
     foldl (\<lambda>acc c. map2 (+) acc c) (replicate (embedding_dim (dn_embedding net)) 0)
           (map2 (slot_contribution net) drugs doses)"

definition DrugNetwork_spec :: "drug_network_spec \<Rightarrow> int list list \<Rightarrow> mat \<Rightarrow> mat" where
  "DrugNetwork_spec net drugs doses = map2 (drug_network_cell net) drugs doses"

section \<open>\<open>CPA.setup_anndata\<close> (\<open>cpa/_model.py\<close>)\<close>

text \<open>
  Python strings are compared by code point, lists of them lexicographically; that is
  the order of \<open>string\<close> here. \<open>s.split(c)\<close> cuts at every occurrence of the
  separator and keeps empty pieces.
\<close>

fun str_split :: "char \<Rightarrow> string \<Rightarrow> string list" where
  "str_split c [] = [[]]"
| "str_split c (x # xs) =
     (if x = c then [] # str_split c xs
      else (case str_split c xs of [] \<Rightarrow> [[x]] | w # ws \<Rightarrow> (x # w) # ws))"

subsection \<open>The perturbation vocabulary\<close>

text \<open>
  The state that the vocabulary block of \<open>setup_anndata\<close> leaves behind: the list
  \<open>perts_names_unique\<close>, the dictionary \<open>pert_encoder\<close> (in insertion order) and
  \<open>CPA_REGISTRY_KEYS.PADDING_IDX\<close>.
\<close>

record pert_setup =
  perts_names_unique :: "string list"
  pert_encoder :: "(string \<times> nat) list"
  PADDING_IDX :: int

text \<open>
  The names collected from the data: every piece of every distinct condition string,
  the control group left out. The Python set is a duplicate-free list.
\<close>

definition collect_perts :: "string list \<Rightarrow> string \<Rightarrow> string list" where
  "collect_perts perturbations control_group =
     fold (\<lambda>d names. fold List.insert (filter (\<lambda>i. i \<noteq> control_group) (str_split CHR ''+'' d)) names)
          (np_unique perturbations) []"

text \<open>
  The block \<open>if cls.pert_encoder is None: ... else: ...\<close>. The dictionary
  comprehension over \<open>enumerate\<close> stores each name with its position; a name that
  occurs again overwrites its entry.
\<close>

definition setup_anndata_perts ::
  "(string \<times> nat) list option \<Rightarrow> int \<Rightarrow> string list \<Rightarrow> string \<Rightarrow> pert_setup" where
  "setup_anndata_perts cls_pert_encoder registry_padding_idx perturbations control_group =
     (case cls_pert_encoder of
        None \<Rightarrow>
          (let names = [''<PAD>'', control_group] @ sort (collect_perts perturbations control_group)
           in \<lparr>perts_names_unique = names,
               pert_encoder = fold (\<lambda>(i, pert) d. AList.update pert i d) (enumerate 0 names) [],
               PADDING_IDX = 0\<rparr>)
      | Some enc \<Rightarrow>
          \<lparr>perts_names_unique = map fst enc, pert_encoder = enc, PADDING_IDX = registry_padding_idx\<rparr>)"

subsection \<open>The masks of differentially expressed genes\<close>

text \<open>
  \<open>adata.var_names.isin(values).astype(int)\<close>, the slice \<open>values[:n]\<close> (a negative
  \<open>n\<close> counts from the end) and \<open>np.vstack\<close>, which raises on an empty sequence and on
  rows of different lengths.
\<close>

definition isin :: "string list \<Rightarrow> string list \<Rightarrow> int list" where
  "isin var_names vals = map (\<lambda>g. if g \<in> set vals then 1 else 0) var_names"

definition py_slice_to :: "int \<Rightarrow> 'a list \<Rightarrow> 'a list" where
  "py_slice_to n xs = (if 0 \<le> n then take (nat n) xs else take (length xs - nat (- n)) xs)"

definition np_vstack :: "'a list list \<Rightarrow> exn + 'a list list" where
  "np_vstack rows =
     (if rows = [] then Inl (ValueError ''need at least one array to concatenate'')
      else if list_all (\<lambda>r. length r = length (hd rows)) rows then Inr rows
      else Inl (ValueError ''all the input array dimensions must match exactly''))"

text \<open>
  The loop over \<open>cov_cond_unique\<close>, which fills two tables: \<open>cov_cond_map\<close> with the
  mask of all differentially expressed genes of a category, \<open>cov_cond_map_r2\<close> with
  the mask of the first \<open>n_deg_r2\<close> of them. A category without an entry in
  \<open>adata.uns[deg_uns_key]\<close> gets the all-ones mask in both.
\<close>

fun cov_cond_loop ::
  "string list \<Rightarrow> (string \<rightharpoonup> string list) \<Rightarrow> int \<Rightarrow> string list
     \<Rightarrow> (string \<rightharpoonup> int list) \<times> (string \<rightharpoonup> int list)
     \<Rightarrow> (string \<rightharpoonup> int list) \<times> (string \<rightharpoonup> int list)" where
  "cov_cond_loop var_names uns n_deg_r2 [] tables = tables"
| "cov_cond_loop var_names uns n_deg_r2 (cov_cond # rest) (cov_cond_map, cov_cond_map_r2) =
     (case uns cov_cond of
        Some degs \<Rightarrow>
          (let mask_hvg = isin var_names degs;
               mask_hvg_r2 = isin var_names (py_slice_to n_deg_r2 degs)
           in cov_cond_loop var_names uns n_deg_r2 rest
                (cov_cond_map(cov_cond \<mapsto> mask_hvg), cov_cond_map_r2(cov_cond \<mapsto> mask_hvg_r2)))
      | None \<Rightarrow>
          (let no_mask = replicate (length var_names) 1
           in cov_cond_loop var_names uns n_deg_r2 rest
                (cov_cond_map(cov_cond \<mapsto> no_mask), cov_cond_map_r2(cov_cond \<mapsto> no_mask))))"

record deg_setup =
  deg_mask :: "int list list"
  deg_mask_r2 :: "int list list"

text \<open>
  The block \<open>if deg_uns_key: ...\<close>: \<open>obs_cat\<close> is the column
  \<open>adata.obs[deg_uns_cat_key]\<close>, one category per cell. Both masks are stacked from
  lookups in \<open>cov_cond_map\<close>.
\<close>

definition setup_anndata_deg ::
  "string list \<Rightarrow> (string \<rightharpoonup> string list) \<Rightarrow> string list \<Rightarrow> int \<Rightarrow> exn + deg_setup" where
  "setup_anndata_deg var_names uns obs_cat n_deg_r2 =
     (let cov_cond_unique = np_unique obs_cat;
          (cov_cond_map, cov_cond_map_r2) =
             cov_cond_loop var_names uns n_deg_r2 cov_cond_unique (Map.empty, Map.empty)
      in case getitems cov_cond_map obs_cat of
           Inl e \<Rightarrow> Inl e
         | Inr rows \<Rightarrow>
      (case np_vstack rows of
           Inl e \<Rightarrow> Inl e
         | Inr mask' \<Rightarrow>
      (case getitems cov_cond_map obs_cat of
           Inl e \<Rightarrow> Inl e
         | Inr rows_r2 \<Rightarrow>
      (case np_vstack rows_r2 of
           Inl e \<Rightarrow> Inl e
         | Inr mask_r2' \<Rightarrow> Inr \<lparr>deg_mask = mask', deg_mask_r2 = mask_r2'\<rparr>))))"

section \<open>Concrete inputs\<close>

text \<open>
  A small library: latent dimension 1, encoders and the drug network that return zeros,
  a Gaussian decoder with unit variance, and embedding tables whose row 0 is 1 and whose
  other rows are 10.
\<close>

definition toy_lib :: torch_lib where
  "toy_lib = \<lparr>
     new_Encoder = (\<lambda>x. (x, x, x)),
     new_FCLayers = (\<lambda>x. map (\<lambda>row. [0]) x),
     new_l_encoder = (\<lambda>x. map (\<lambda>row. [1]) x),
     new_DecoderGauss = (\<lambda>z. (z, map (map (\<lambda>a. 1)) z)),
     new_DecoderNB = (\<lambda>z r. \<lparr>nb_mu = z, nb_theta = r\<rparr>),
     randn = (\<lambda>n. replicate n 0),
     new_DrugNetwork = (\<lambda>n l doser. Inr (\<lambda>drugs doses. map (\<lambda>row. replicate l 0) drugs)),
     new_drugs_classifier = (\<lambda>z. z),
     new_Embedding_weight = (\<lambda>key row col. if row = 0 then 1 else 10),
     new_covars_classifier = (\<lambda>key z. z)\<rparr>"

text \<open>A batch of two cells, one gene, one covariate with the codes 0 and 1.\<close>

definition toy_tensors :: "string \<Rightarrow> tensors" where
  "toy_tensors covar = \<lparr>
     X = [[5], [7]],
     drug_name = [[1], [2]],
     dose_value = [[1], [1]],
     covars = [covar \<mapsto> [[0], [1]]]\<rparr>"

definition toy_module :: "string \<Rightarrow> string \<Rightarrow> exn + cpa_module" where
  "toy_module la covar = CPAModule_init toy_lib 1 3 [(covar, [''A'', ''B''])] 1 la ''linear'' False"

text \<open>
  The combined latent as the specification words it, for cell \<open>i\<close>: its basal code plus
  the sum of its covariate embeddings plus its treatment embedding.
\<close>

definition latent_spec :: "cpa_module \<Rightarrow> mat \<Rightarrow> (string \<rightharpoonup> int list) \<Rightarrow> mat \<Rightarrow> nat \<Rightarrow> vec" where
  "latent_spec m basal cd treatment i =
     map (\<lambda>j. basal ! i ! j
              + sum_list (map (\<lambda>(covar, E). weight E (nat (the (cd covar) ! i)) j) (covars_embedding m))
              + treatment ! i ! j)
         [0..<n_latent m]"

text \<open>Oracles for the examples: every cross-entropy and every gradient entry is 1.\<close>

definition toy_fn :: torch_fn where
  "toy_fn = \<lparr>CrossEntropyLoss = (\<lambda>pred y. Inr 1), autograd_grad = (\<lambda>out inp. Inr (map (map (\<lambda>a. 1)) inp))\<rparr>"

text \<open>A cross-validation in which every fold classifies every cell correctly.\<close>

definition toy_sk :: sklearn where
  "toy_sk = \<lparr>
     cross_val_score = (\<lambda>feats y k.
       if k < 2 then Inl (ValueError ''k-fold cross-validation requires at least one train/test split'')
       else Inr (replicate k 1)),
     fit_transform = (\<lambda>feats. feats)\<rparr>"

definition toy_inference_outputs :: inference_outputs where
  "toy_inference_outputs = \<lparr>latent = [[11], [11]], latent_basal = [[0], [0]], dist_qz = None,
     library = None, covars_dict = [''cell_type'' \<mapsto> [0, 1]]\<rparr>"

text \<open>
  An evaluation batch of ten cells, five with perturbation 1 and covariate code 0, five
  with perturbation 2 and covariate code 1, whose one-dimensional latent codes sit at
  \<open>-1\<close> for the first five cells and at \<open>1\<close> for the others. The features have mean 0
  and variance 1, so \<open>StandardScaler\<close> leaves them unchanged, the two classes of either
  label are linearly separable, each class has five members, and the logistic
  regression classifies every test fold correctly: every fold score is 1. The oracle
  \<open>sk_separable\<close> stands for scikit-learn on such data; it also has the refusals of
  \<open>cross_val_score\<close>: fewer than two folds, features and labels of different
  lengths, and more folds than members in every class.
\<close>

definition sk_separable :: sklearn where
  "sk_separable = \<lparr>
     cross_val_score = (\<lambda>feats y k.
       if k < 2 then Inl (ValueError ''k-fold cross-validation requires at least one train/test split'')
       else if length feats \<noteq> length y
       then Inl (ValueError ''Found input variables with inconsistent numbers of samples'')
       else if list_all (\<lambda>c. count_list y c < k) y
       then Inl (ValueError ''n_splits cannot be greater than the number of members in each class'')
       else Inr (replicate k 1)),
     fit_transform = (\<lambda>feats. feats)\<rparr>"

definition eval_tensors :: tensors where
  "eval_tensors = \<lparr>
     X = replicate 10 [0],
     drug_name = [[1], [1], [1], [1], [1], [2], [2], [2], [2], [2]],
     dose_value = replicate 10 [1],
     covars = [''cell_type'' \<mapsto> [[0], [0], [0], [0], [0], [1], [1], [1], [1], [1]]]\<rparr>"

definition eval_inference_outputs :: inference_outputs where
  "eval_inference_outputs = \<lparr>
     latent = [[-1], [-1], [-1], [-1], [-1], [1], [1], [1], [1], [1]],
     latent_basal = [[-1], [-1], [-1], [-1], [-1], [1], [1], [1], [1], [1]],
     dist_qz = None,
     library = None,
     covars_dict = [''cell_type'' \<mapsto> [0, 0, 0, 0, 0, 1, 1, 1, 1, 1]]\<rparr>"

text \<open>
  A perturbation network of the sigmoid family with latent dimension 2, padding index 0,
  and a dose response \<open>1 + dosage\<close> that does not vanish at dosage 0 by itself.
\<close>

definition toy_drug_network :: drug_network_spec where
  "toy_drug_network = \<lparr>
     dn_family = Sigmoid,
     dn_padding_idx = 0,
     dn_embedding = \<lparr>num_embeddings = 3, embedding_dim = 2, weight = (\<lambda>row col. real row + 1)\<rparr>,
     dn_dose_response = (\<lambda>fam idx dose j. 1 + dose)\<rparr>"

section \<open>Construction with an unsupported likelihood\<close>

lemmas toy_defs =
  toy_module_def toy_lib_def toy_tensors_def toy_fn_def toy_sk_def toy_inference_outputs_def
  CPAModule_init_def

text \<open>
  C6. For every \<open>loss_ae\<close> string other than \<open>'gauss'\<close>, \<open>'mse'\<close> and \<open>'nb'\<close>,
  constructing the module raises \<open>Exception('Invalid Loss function for Autoencoder')\<close>:
  no module is returned and no supported likelihood is substituted, whatever the other
  arguments and the library components are.
\<close>

theorem CPAModule_init_unsupported_loss_ae:
  assumes "la \<noteq> ''gauss''" and "la \<noteq> ''mse''" and "la \<noteq> ''nb''"
  shows "CPAModule_init lib g d ce nl la dt v = Inl (PyException ''Invalid Loss function for Autoencoder'')"
  using assms by (simp add: CPAModule_init_def)

theorem CPAModule_init_unsupported_loss_ae_witness:
  "''poisson'' \<noteq> ''gauss'' \<and> ''poisson'' \<noteq> ''mse'' \<and> ''poisson'' \<noteq> ''nb'' \<and>
   CPAModule_init toy_lib 1 3 [(''cell_type'', [''A'', ''B''])] 1 ''poisson'' ''linear'' False
     = Inl (PyException ''Invalid Loss function for Autoencoder'')"
  using CPAModule_init_unsupported_loss_ae
          [of "''poisson''" toy_lib 1 3 "[(''cell_type'', [''A'', ''B''])]" 1 "''linear''" False]
  by simp

section \<open>The combined latent\<close>

text \<open>
  C1 says that each cell's combined latent is its basal code plus the sum of its own
  covariate embeddings plus its treatment embedding. \<open>inference\<close> joins the covariate
  latents with \<open>torch.cat(..., 0).sum(0)\<close>, which also sums over the cells of the
  batch. On a batch of two cells with the covariate codes 0 and 1, embedding rows
  \<open>[1]\<close> and \<open>[10]\<close>, and zero basal and treatment parts, both cells get the latent
  \<open>[11]\<close>, where the claim gives \<open>[1]\<close> to the first and \<open>[10]\<close> to the second.
\<close>

theorem inference_adds_batch_sum_of_covariates:
  "\<exists>m out. toy_module ''gauss'' ''cell_type'' = Inr m
     \<and> inference m [[5], [7]] [[1], [2]] [[1], [1]] [''cell_type'' \<mapsto> [0, 1]] = Inr out
     \<and> latent out = [[11], [11]]
     \<and> latent_basal out = [[0], [0]]
     \<and> drug_network m [[1], [2]] [[1], [1]] = [[0], [0]]
     \<and> latent_spec m [[0], [0]] [''cell_type'' \<mapsto> [0, 1]] [[0], [0]] 0 = [1]
     \<and> latent_spec m [[0], [0]] [''cell_type'' \<mapsto> [0, 1]] [[0], [0]] 1 = [10]"
  by (simp add: toy_defs inference_def Embedding_forward_def torch_cat0_def sum0_def bmat_def
        bvec_def latent_spec_def Let_def)

section \<open>The perturbation network at dosage zero\<close>

lemma slot_contribution_zero_dose:
  "slot_contribution net idx 0 = replicate (embedding_dim (dn_embedding net)) 0"
  by (simp add: slot_contribution_def map_replicate_const)

lemma slot_contribution_padding:
  "slot_contribution net (dn_padding_idx net) dose = replicate (embedding_dim (dn_embedding net)) 0"
  by (simp add: slot_contribution_def map_replicate_const)

lemma map2_add_zeros: "map2 (+) (replicate n (0::real)) (replicate n 0) = replicate n 0"
  by (induction n) simp_all

lemma foldl_add_zeros:
  "list_all (\<lambda>c. c = replicate n (0::real)) cs \<Longrightarrow>
   foldl (\<lambda>acc c. map2 (+) acc c) (replicate n 0) cs = replicate n 0"
  by (induction cs) (simp_all add: map2_add_zeros)

lemma slots_all_zero:
  "list_all (\<lambda>(idx, dose). idx = dn_padding_idx net \<or> dose = 0) (zip drugs doses) \<Longrightarrow>
   list_all (\<lambda>c. c = replicate (embedding_dim (dn_embedding net)) 0) (map2 (slot_contribution net) drugs doses)"
  by (auto simp: list_all_iff slot_contribution_zero_dose slot_contribution_padding)

text \<open>
  C5, against the perturbation network as the specification describes it. A slot whose
  dosage is exactly 0 contributes the zero vector, for every dose-response family and
  every learned dose response; a combination of padding indices with zero dosages
  yields the zero vector as the cell's treatment contribution.
\<close>

theorem zero_dose_slot_contributes_nothing:
  "slot_contribution net idx 0 = replicate (embedding_dim (dn_embedding net)) 0
   \<and> (list_all (\<lambda>idx. idx = dn_padding_idx net) drugs \<and> list_all (\<lambda>dose. dose = 0) doses
        \<longrightarrow> drug_network_cell net drugs doses = replicate (embedding_dim (dn_embedding net)) 0)"
proof (intro conjI impI)
  show "slot_contribution net idx 0 = replicate (embedding_dim (dn_embedding net)) 0"
    by (rule slot_contribution_zero_dose)
next
  assume a: "list_all (\<lambda>idx. idx = dn_padding_idx net) drugs \<and> list_all (\<lambda>dose. dose = 0) doses"
  have "list_all (\<lambda>(idx, dose). idx = dn_padding_idx net \<or> dose = 0) (zip drugs doses)"
    using a by (auto simp: list_all_iff dest: set_zip_rightD)
  then show "drug_network_cell net drugs doses = replicate (embedding_dim (dn_embedding net)) 0"
    unfolding drug_network_cell_def by (intro foldl_add_zeros slots_all_zero)
qed

text \<open>
  The sigmoid-family network with dose response \<open>1 + dosage\<close>: perturbation 2 at
  dosage 1 contributes \<open>2 * 3\<close> in both coordinates, at dosage 0 nothing.
\<close>

theorem zero_dose_slot_contributes_nothing_witness:
  "slot_contribution toy_drug_network 2 0 = [0, 0]
   \<and> slot_contribution toy_drug_network 2 1 = [6, 6]
   \<and> list_all (\<lambda>idx. idx = dn_padding_idx toy_drug_network) [0, 0]
   \<and> list_all (\<lambda>dose. dose = 0) [0, 0 :: real]
   \<and> drug_network_cell toy_drug_network [0, 0] [0, 0] = [0, 0]
   \<and> DrugNetwork_spec toy_drug_network [[2, 0], [0, 0]] [[1, 0], [0, 0]] = [[6, 6], [0, 0]]"
  using zero_dose_slot_contributes_nothing [of toy_drug_network 2 "[0, 0]" "[0, 0]"]
  by (simp add: toy_drug_network_def slot_contribution_def drug_network_cell_def DrugNetwork_spec_def
        eval_nat_numeral upt_conv_Cons)

section \<open>The reconstruction loss\<close>

text \<open>
  C3 says that for \<open>loss_ae = 'nb'\<close> the loss is the negative log-likelihood under the
  count distribution. \<open>loss\<close> reads \<open>generative_outputs["means"]\<close> first, a key that
  \<open>generative\<close> does not produce for \<open>'nb'\<close>: on the module built with \<open>'nb'\<close> and
  its own generative outputs, \<open>loss\<close> raises \<open>KeyError('means')\<close>.
\<close>

theorem loss_nb_raises_KeyError:
  "\<exists>m g. toy_module ''nb'' ''cell_type'' = Inr m
     \<and> generative m [[11], [11]] [[0], [0]] = Inr g
     \<and> dist_px g \<noteq> None
     \<and> loss m (toy_tensors ''cell_type'') toy_inference_outputs g = Inl (KeyError ''means'')"
  by (simp add: toy_defs generative_def loss_def)

text \<open>
  Nor do other generative outputs help: with both keys present, \<open>loss\<close> reaches
  \<open>raise Exception('Invalid Loss function for CPA')\<close>. A module with
  \<open>loss_ae = 'nb'\<close> has no input on which \<open>loss\<close> returns.
\<close>

lemma loss_nb_never_returns:
  "loss_ae m = ''nb'' \<Longrightarrow> \<exists>e. loss m t inf_out g = Inl e"
  by (simp add: loss_def split: option.splits)

lemma sequence_map_Inr: "sequence (map Inr xs) = Inr xs"
  by (induction xs) auto

lemma has_shape_Cons: "has_shape (Suc B) G (r # t) \<longleftrightarrow> length r = G \<and> has_shape B G t"
  by (auto simp: has_shape_def)

lemma has_shape_nth: "has_shape B G t \<Longrightarrow> i < B \<Longrightarrow> length (t ! i) = G"
  by (auto simp: has_shape_def list_all_length)

lemma bvec_same_length: "length u = length v \<Longrightarrow> bvec f u v = Inr (map2 f u v)"
  by (simp add: bvec_def)

lemma map2_bvec_same_shape:
  "has_shape B G a \<Longrightarrow> has_shape B G b \<Longrightarrow> map2 (bvec f) a b = map Inr (map2 (map2 f) a b)"
proof (induction a arbitrary: b B)
  case Nil
  then show ?case by simp
next
  case (Cons r a)
  then obtain s b' B' where b: "b = s # b'" and B: "B = Suc B'"
    by (cases b; cases B) (auto simp: has_shape_def)
  with Cons.prems have "length r = length s" "has_shape B' G a" "has_shape B' G b'"
    by (simp_all add: has_shape_Cons)
  then show ?case
    using Cons.IH[of B' b'] by (simp add: b bvec_same_length)
qed

lemma bmat_same_shape:
  assumes "has_shape B G a" and "has_shape B G b"
  shows "bmat f a b = Inr (map2 (map2 f) a b)"
proof -
  have "length a = length b" using assms by (simp add: has_shape_def)
  then show ?thesis
    unfolding bmat_def by (simp only: if_True map2_bvec_same_shape[OF assms] sequence_map_Inr refl)
qed

lemma has_shape_map2:
  "has_shape B G a \<Longrightarrow> has_shape B G b \<Longrightarrow> has_shape B G (map2 (map2 f) a b)"
proof (induction a arbitrary: b B)
  case Nil
  then show ?case by (simp add: has_shape_def)
next
  case (Cons r a)
  then obtain s b' B' where b: "b = s # b'" and B: "B = Suc B'"
    by (cases b; cases B) (auto simp: has_shape_def)
  with Cons.prems have "length r = G" "length s = G" "has_shape B' G a" "has_shape B' G b'"
    by (simp_all add: has_shape_Cons)
  then show ?case
    using Cons.IH[of B' b'] by (simp add: b B has_shape_Cons)
qed

lemma has_shape_map: "has_shape B G a \<Longrightarrow> has_shape B G (map (map f) a)"
  by (simp add: has_shape_def list_all_iff)

lemma nth_map2_map2:
  assumes "has_shape B G a" and "has_shape B G b" and "i < B" and "j < G"
  shows "map2 (map2 f) a b ! i ! j = f (a ! i ! j) (b ! i ! j)"
proof -
  have "length a = B" "length b = B" using assms by (simp_all add: has_shape_def)
  moreover have "length (a ! i) = G" "length (b ! i) = G"
    using assms by (simp_all add: has_shape_nth)
  ultimately show ?thesis using assms(3,4) by simp
qed

lemma nth_map_map:
  assumes "has_shape B G a" and "i < B" and "j < G"
  shows "map (map f) a ! i ! j = f (a ! i ! j)"
proof -
  have "length a = B" using assms by (simp add: has_shape_def)
  moreover have "length (a ! i) = G" using assms by (simp add: has_shape_nth)
  ultimately show ?thesis using assms(2,3) by simp
qed

lemma length_concat_shape: "has_shape B G t \<Longrightarrow> length (concat t) = B * G"
proof (induction t arbitrary: B)
  case Nil
  then show ?case by (simp add: has_shape_def)
next
  case (Cons r t)
  then obtain B' where B: "B = Suc B'" by (cases B) (auto simp: has_shape_def)
  with Cons.prems have "length r = G" "has_shape B' G t" by (simp_all add: has_shape_Cons)
  then show ?case using Cons.IH[of B'] by (simp add: B)
qed

lemma sum_list_concat_shape:
  assumes "has_shape B G t"
  shows "sum_list (concat t) = (\<Sum>i<B. \<Sum>j<G. t ! i ! j)"
proof -
  have B: "length t = B" using assms by (simp add: has_shape_def)
  have "sum_list (concat t) = sum_list (map sum_list t)"
    by (induction t) simp_all
  also have "\<dots> = (\<Sum>i<B. sum_list (t ! i))"
    using B by (simp add: sum_list_sum_nth atLeast0LessThan)
  also have "\<dots> = (\<Sum>i<B. \<Sum>j<G. t ! i ! j)"
  proof (rule sum.cong)
    fix i assume "i \<in> {..<B}"
    then have "length (t ! i) = G" using assms by (simp add: has_shape_nth)
    then show "sum_list (t ! i) = (\<Sum>j<G. t ! i ! j)"
      by (simp add: sum_list_sum_nth atLeast0LessThan)
  qed simp
  finally show ?thesis .
qed

lemma tensor_mean_shape:
  "has_shape B G t \<Longrightarrow> tensor_mean t = (\<Sum>i<B. \<Sum>j<G. t ! i ! j) / real (B * G)"
  by (simp add: tensor_mean_def length_concat_shape sum_list_concat_shape)

text \<open>
  C2. For a module with the Gaussian likelihood (\<open>'gauss'\<close> or \<open>'mse'\<close>) and decoder
  outputs \<open>means\<close> and \<open>variances\<close> of the shape \<open>(B, G)\<close> of the expression matrix,
  \<open>loss\<close> returns the average over all \<open>B * G\<close> elements of
  \<open>0.5*log(variance) + (x-mean)^2/(2*variance)\<close>. Floats are idealised as reals, so
  the batch is taken non-empty and the variances positive: there the real logarithm and
  quotient are what torch computes.
\<close>

theorem loss_gauss_is_mean_nll:
  assumes la: "loss_ae m = ''gauss'' \<or> loss_ae m = ''mse''"
    and mu: "means g = Some mu" and var: "variances g = Some var"
    and sx: "has_shape B G (X t)" and sm: "has_shape B G mu" and sv: "has_shape B G var"
    and "0 < B" and "0 < G"
    and "list_all (list_all (\<lambda>v. 0 < v)) var"
  shows "loss m t inf_out g = Inr (reconstruction_loss_spec B G (X t) mu var)"
proof -
  let ?term1 = "map (map (\<lambda>v. ln v / 2)) var"
  let ?d = "map2 (map2 (-)) (X t) mu"
  let ?sq = "map (map (\<lambda>a. a ^ 2)) ?d"
  let ?den = "map (map (\<lambda>v. v * 2)) var"
  let ?term2 = "map2 (map2 (/)) ?sq ?den"
  let ?s = "map2 (map2 (+)) ?term1 ?term2"
  have sd: "has_shape B G ?d" using sx sm by (rule has_shape_map2)
  have ssq: "has_shape B G ?sq" using sd by (rule has_shape_map)
  have sden: "has_shape B G ?den" using sv by (rule has_shape_map)
  have st1: "has_shape B G ?term1" using sv by (rule has_shape_map)
  have st2: "has_shape B G ?term2" using ssq sden by (rule has_shape_map2)
  have ss: "has_shape B G ?s" using st1 st2 by (rule has_shape_map2)
  have b1: "bmat (-) (X t) mu = Inr ?d" using sx sm by (rule bmat_same_shape)
  have b2: "bmat (/) ?sq ?den = Inr ?term2" using ssq sden by (rule bmat_same_shape)
  have b3: "bmat (+) ?term1 ?term2 = Inr ?s" using st1 st2 by (rule bmat_same_shape)
  have mem: "loss_ae m \<in> set [''gauss'', ''mse'']"
    using la by auto
  have "loss m t inf_out g = Inr (tensor_mean ?s)"
    unfolding loss_def Let_def mu var
    by (simp only: option.case sum.case mem if_True b1 b2 b3)
  also have "tensor_mean ?s = (\<Sum>i<B. \<Sum>j<G. ?s ! i ! j) / real (B * G)"
    using ss by (rule tensor_mean_shape)
  also have "(\<Sum>i<B. \<Sum>j<G. ?s ! i ! j)
             = (\<Sum>i<B. \<Sum>j<G. gauss_nll_spec (X t ! i ! j) (mu ! i ! j) (var ! i ! j))"
  proof (intro sum.cong refl)
    fix i j assume "i \<in> {..<B}" "j \<in> {..<G}"
    then have i: "i < B" and j: "j < G" by simp_all
    have "?s ! i ! j = ?term1 ! i ! j + ?term2 ! i ! j"
      using st1 st2 i j by (rule nth_map2_map2)
    also have "?term1 ! i ! j = ln (var ! i ! j) / 2"
      using sv i j by (rule nth_map_map)
    also have "?term2 ! i ! j = ?sq ! i ! j / ?den ! i ! j"
      using ssq sden i j by (rule nth_map2_map2)
    also have "?sq ! i ! j = (?d ! i ! j) ^ 2"
      using sd i j by (rule nth_map_map)
    also have "?d ! i ! j = X t ! i ! j - mu ! i ! j"
      using sx sm i j by (rule nth_map2_map2)
    also have "?den ! i ! j = var ! i ! j * 2"
      using sv i j by (rule nth_map_map)
    finally show "?s ! i ! j = gauss_nll_spec (X t ! i ! j) (mu ! i ! j) (var ! i ! j)"
      by (simp add: gauss_nll_spec_def mult.commute)
  qed
  finally show ?thesis
    by (simp add: reconstruction_loss_spec_def)
qed

text \<open>
  The Gaussian module on the two-cell batch: means 11, variances 1, expression 5 and 7;
  the loss is \<open>(36/2 + 16/2) / 2 = 13\<close>.
\<close>

theorem loss_gauss_is_mean_nll_witness:
  "\<exists>m g. toy_module ''gauss'' ''cell_type'' = Inr m
     \<and> generative m [[11], [11]] [[0], [0]] = Inr g
     \<and> means g = Some [[11], [11]] \<and> variances g = Some [[1], [1]]
     \<and> loss m (toy_tensors ''cell_type'') toy_inference_outputs g
         = Inr (reconstruction_loss_spec 2 1 [[5], [7]] [[11], [11]] [[1], [1]])
     \<and> reconstruction_loss_spec 2 1 [[5], [7]] [[11], [11]] [[1], [1]] = 13"
proof -
  obtain m where m: "toy_module ''gauss'' ''cell_type'' = Inr m" and la: "loss_ae m = ''gauss''"
    and dec: "decoder m = DecoderGauss (\<lambda>z. (z, map (map (\<lambda>a. 1)) z))"
    and ce: "covars_encoder m = [(''cell_type'', [''A'', ''B''])]"
    and cc: "covars_classifiers m = [(''cell_type'', \<lambda>z. z)]"
    by (simp add: toy_defs)
  obtain g where g: "generative m [[11], [11]] [[0], [0]] = Inr g"
    and mu: "means g = Some [[11], [11]]" and var: "variances g = Some [[1], [1]]"
    by (simp add: generative_def la dec ce cc)
  have x: "X (toy_tensors ''cell_type'') = [[5], [7]]"
    by (simp add: toy_tensors_def)
  have "loss m (toy_tensors ''cell_type'') toy_inference_outputs g
         = Inr (reconstruction_loss_spec 2 1 (X (toy_tensors ''cell_type'')) [[11], [11]] [[1], [1]])"
    using la by (intro loss_gauss_is_mean_nll[OF _ mu var]) (simp_all add: x has_shape_def)
  moreover have "reconstruction_loss_spec 2 1 [[5], [7]] [[11], [11]] [[1], [1]] = 13"
    by (simp add: reconstruction_loss_spec_def gauss_nll_spec_def lessThan_Suc eval_nat_numeral)
  ultimately show ?thesis using m g mu var x by simp
qed

section \<open>The adversarial totals\<close>

text \<open>
  C4 says that in the returned mapping \<open>adv_loss\<close> is the sum of \<open>adv_drugs\<close> and all
  \<open>adv_<covariate>\<close> entries, and \<open>penalty_adv\<close> the sum of \<open>penalty_drugs\<close> and all
  \<open>penalty_<covariate>\<close> entries. The totals are stored in the same dictionary as the
  per-covariate entries: the total of a module with a covariate named \<open>loss\<close> overwrites
  that covariate's entry \<open>adv_loss\<close>, and a covariate named \<open>adv\<close> loses its entry
  \<open>penalty_adv\<close> in the same way. With every cross-entropy and every penalty equal to 1,
  the returned \<open>adv_loss\<close> is 2 and not \<open>1 + 2\<close>, and the returned \<open>penalty_adv\<close> is 2
  and not \<open>1 + 2\<close>.
\<close>

theorem adversarial_loss_total_overwrites_covariate_entry:
  "(\<exists>m g r. toy_module ''gauss'' ''loss'' = Inr m
      \<and> generative m [[11], [11]] [[0], [0]] = Inr g
      \<and> adversarial_loss toy_fn m (toy_tensors ''loss'')
            (toy_inference_outputs\<lparr>covars_dict := [''loss'' \<mapsto> [0, 1]]\<rparr>) g = Inr r
      \<and> r ''adv_drugs'' = Some 1 \<and> r (''adv_'' @ ''loss'') = Some 2 \<and> r ''adv_loss'' = Some 2)
   \<and> (\<exists>m g r. toy_module ''gauss'' ''adv'' = Inr m
      \<and> generative m [[11], [11]] [[0], [0]] = Inr g
      \<and> adversarial_loss toy_fn m (toy_tensors ''adv'')
            (toy_inference_outputs\<lparr>covars_dict := [''adv'' \<mapsto> [0, 1]]\<rparr>) g = Inr r
      \<and> r ''penalty_drugs'' = Some 1 \<and> r (''penalty_'' @ ''adv'') = Some 2
      \<and> r ''penalty_adv'' = Some 2)"
  by (simp add: toy_defs generative_def adversarial_loss_def penalty_def py_sum_def
        tensor_mean_def)

lemma adv_loop_other:
  "adv_loop fn cp cd ks acc = Inr r \<Longrightarrow> key \<notin> (\<lambda>k. ''adv_'' @ k) ` set ks \<Longrightarrow> r key = acc key"
  by (induction ks arbitrary: acc) (auto split: option.splits sum.splits)

lemma penalty_loop_other:
  "penalty_loop fn cp basal ks acc = Inr r \<Longrightarrow> key \<notin> (\<lambda>k. ''penalty_'' @ k) ` set ks \<Longrightarrow> r key = acc key"
  by (induction ks arbitrary: acc) (auto split: option.splits sum.splits)

lemma getitems_cong:
  "(\<And>k. k \<in> set ks \<Longrightarrow> d k = d' k) \<Longrightarrow> getitems d ks = getitems d' ks"
proof (induction ks)
  case Nil
  show ?case by simp
next
  case (Cons k ks)
  then have "getitems d ks = getitems d' ks" and "d k = d' k" by simp_all
  then show ?case by (simp split: option.split)
qed

lemma getitems_Cons_Inr:
  "getitems d (k # ks) = Inr vs \<Longrightarrow> \<exists>v vs'. vs = v # vs' \<and> d k = Some v \<and> getitems d ks = Inr vs'"
  by (auto split: option.splits sum.splits)

text \<open>
  For every module none of whose covariates is named \<open>loss\<close> or \<open>adv\<close>, the two
  totals of a returned mapping are the sums of the mapping's own entries.
\<close>

lemma adversarial_loss_totals:
  assumes nl: "''loss'' \<notin> fst ` set (covars_encoder m)"
    and na: "''adv'' \<notin> fst ` set (covars_encoder m)"
    and ret: "adversarial_loss fn m t inf_out gen_out = Inr r"
  shows "\<exists>a vs p ps.
      r ''adv_drugs'' = Some a
    \<and> getitems r (map (\<lambda>key. ''adv_'' @ key) (map fst (covars_encoder m))) = Inr vs
    \<and> r ''adv_loss'' = Some (a + py_sum vs)
    \<and> r ''penalty_drugs'' = Some p
    \<and> getitems r (map (\<lambda>covar. ''penalty_'' @ covar) (map fst (covars_encoder m))) = Inr ps
    \<and> r ''penalty_adv'' = Some (p + py_sum ps)"
proof -
  let ?keys = "map fst (covars_encoder m)"
  let ?ak = "map (\<lambda>key. ''adv_'' @ key) ?keys"
  let ?pk = "map (\<lambda>covar. ''penalty_'' @ covar) ?keys"
  define keys where "keys = map fst (covars_encoder m)"
  define ak where "ak = ''adv_drugs'' # map (\<lambda>key. ''adv_'' @ key) keys"
  define pk where "pk = ''penalty_drugs'' # map (\<lambda>covar. ''penalty_'' @ covar) keys"
  note ret' = ret[unfolded adversarial_loss_def Let_def, folded keys_def, folded ak_def pk_def]
  from ret' obtain r1 l vs0 r4 pl ps0 where
    r1: "adv_loop fn (covars_pred gen_out) (covars_dict inf_out) keys Map.empty = Inr r1"
    and g2': "getitems (r1(''adv_drugs'' \<mapsto> l)) ak = Inr vs0"
    and r4': "penalty_loop fn (covars_pred gen_out) (latent_basal inf_out) keys
               (r1(''adv_drugs'' \<mapsto> l, ''adv_loss'' \<mapsto> hd vs0 + py_sum (tl vs0))) = Inr r4"
    and g5': "getitems (r4(''penalty_drugs'' \<mapsto> pl)) pk = Inr ps0"
    and r: "r = r4(''penalty_drugs'' \<mapsto> pl, ''penalty_adv'' \<mapsto> hd ps0 + py_sum (tl ps0))"
    by (auto split: sum.splits)
  note g2 = g2'[unfolded ak_def keys_def] and g5 = g5'[unfolded pk_def keys_def]
    and r4 = r4'[unfolded keys_def]
  let ?r2 = "r1(''adv_drugs'' \<mapsto> l)"
  let ?r5 = "r4(''penalty_drugs'' \<mapsto> pl)"
  from getitems_Cons_Inr[OF g2] obtain a vs where
    vs0: "vs0 = a # vs" and a: "?r2 ''adv_drugs'' = Some a" and gvs: "getitems ?r2 ?ak = Inr vs"
    by blast
  from getitems_Cons_Inr[OF g5] obtain p ps where
    ps0: "ps0 = p # ps" and p: "?r5 ''penalty_drugs'' = Some p" and gps: "getitems ?r5 ?pk = Inr ps"
    by blast
  have r4_adv: "r4 key = (r1(''adv_drugs'' \<mapsto> l, ''adv_loss'' \<mapsto> a + py_sum vs)) key"
    if "hd key = CHR ''a''" "key \<noteq> []" for key
  proof -
    have "key \<notin> (\<lambda>k. ''penalty_'' @ k) ` set ?keys" using that by auto
    from penalty_loop_other[OF r4 this] show ?thesis by (simp add: vs0)
  qed
  have 1: "r ''adv_drugs'' = Some a"
    using r4_adv[of "''adv_drugs''"] a by (simp add: r)
  have 3: "r ''adv_loss'' = Some (a + py_sum vs)"
    using r4_adv[of "''adv_loss''"] by (simp add: r)
  have "getitems r ?ak = getitems ?r2 ?ak"
  proof (rule getitems_cong)
    fix k assume "k \<in> set ?ak"
    then obtain c where c: "c \<in> set ?keys" and k: "k = ''adv_'' @ c" by auto
    have "c \<in> fst ` set (covars_encoder m)" using c by simp
    then have "c \<noteq> ''loss''" using nl by blast
    then show "r k = ?r2 k"
      using r4_adv[of k] by (simp add: r k)
  qed
  then have 2: "getitems r ?ak = Inr vs" using gvs by simp
  have 4: "r ''penalty_drugs'' = Some p"
    using p by (simp add: r)
  have 6: "r ''penalty_adv'' = Some (p + py_sum ps)"
    by (simp add: r ps0)
  have "getitems r ?pk = getitems ?r5 ?pk"
  proof (rule getitems_cong)
    fix k assume "k \<in> set ?pk"
    then obtain c where c: "c \<in> set ?keys" and k: "k = ''penalty_'' @ c" by auto
    have "c \<in> fst ` set (covars_encoder m)" using c by simp
    then have "c \<noteq> ''adv''" using na by blast
    then show "r k = ?r5 k"
      by (simp add: r k)
  qed
  then have 5: "getitems r ?pk = Inr ps" using gps by simp
  show ?thesis using 1 2 3 4 5 6 by blast
qed

section \<open>The disentanglement scores\<close>

text \<open>
  C8 says that every cross-validated fit uses \<open>min(5, number of distinct label values)\<close>
  folds. The fit of the perturbation labels on the combined latent passes \<open>cv=5\<close>: on
  a batch whose perturbation labels and covariate codes have two distinct values each,
  the four fits are called with 2, 2, 5 and 2 folds, the third one on labels with two
  distinct values.
\<close>

theorem disentanglement_latent_drug_fit_uses_cv_5:
  "\<exists>m. toy_module ''gauss'' ''cell_type'' = Inr m
     \<and> map cv_of (snd (disentanglement toy_sk m (toy_tensors ''cell_type'') toy_inference_outputs))
         = [2, 2, 5, 2]
     \<and> map (\<lambda>c. min 5 (length (np_unique (labels_of c))))
           (snd (disentanglement toy_sk m (toy_tensors ''cell_type'') toy_inference_outputs))
         = [2, 2, 2, 2]"
  by (simp add: toy_defs disentanglement_def cv_mean_score_def np_mean_def np_unique_def
        cv_of_def labels_of_def Let_def eval_nat_numeral)

lemma sum_list_unit_interval:
  "list_all (\<lambda>s. 0 \<le> s \<and> s \<le> (1::real)) xs \<Longrightarrow> 0 \<le> sum_list xs \<and> sum_list xs \<le> real (length xs)"
  by (induction xs) auto

lemma np_mean_unit_interval:
  assumes "xs \<noteq> []" and "list_all (\<lambda>s. 0 \<le> s \<and> s \<le> (1::real)) xs"
  shows "0 \<le> np_mean xs \<and> np_mean xs \<le> 1"
proof -
  have "0 < real (length xs)" using assms(1) by simp
  then show ?thesis
    using sum_list_unit_interval[OF assms(2)] by (simp add: np_mean_def divide_le_eq)
qed

lemma cv_mean_score_unit_interval:
  assumes "\<And>feats y k folds. cross_val_score sk feats y k = Inr folds
             \<Longrightarrow> folds \<noteq> [] \<and> list_all (\<lambda>s. 0 \<le> s \<and> s \<le> 1) folds"
    and "cv_mean_score sk feats y k calls = (Inr s, calls')"
  shows "0 \<le> s \<and> s \<le> 1"
proof -
  from assms(2) obtain folds where f: "cross_val_score sk (fit_transform sk feats) y k = Inr folds"
    and s: "s = np_mean folds"
    by (auto simp: cv_mean_score_def Let_def split: sum.splits)
  from assms(1)[OF f] show ?thesis
    unfolding s by (intro np_mean_unit_interval) simp_all
qed

lemma covar_scores_loop_bounds:
  assumes "\<And>feats y k folds. cross_val_score sk feats y k = Inr folds
             \<Longrightarrow> folds \<noteq> [] \<and> list_all (\<lambda>s. 0 \<le> s \<and> s \<le> 1) folds"
    and "covar_scores_loop sk t feats ces scores calls = (Inr s, calls')"
  shows "scores \<le> s \<and> s \<le> scores + real (length (filter (\<lambda>(covar, unique_covars). length unique_covars > 1) ces))"
  using assms(2)
proof (induction ces arbitrary: scores calls)
  case Nil
  then show ?case by simp
next
  case (Cons ce ces)
  obtain covar unique_covars where ce: "ce = (covar, unique_covars)" by (cases ce)
  show ?case
  proof (cases "length unique_covars > 1")
    case False
    then show ?thesis using Cons.prems Cons.IH[of scores calls] by (simp add: ce)
  next
    case True
    from Cons.prems True obtain target a calls1 where
      "covars t covar = Some target"
      and a: "cv_mean_score sk feats (concat target) (min 5 (length (np_unique (concat target)))) calls = (Inr a, calls1)"
      and r: "covar_scores_loop sk t feats ces (scores + a) calls1 = (Inr s, calls')"
      by (auto simp: ce Let_def split: option.splits prod.splits sum.splits)
    have "0 \<le> a \<and> a \<le> 1"
      using assms(1) a by (rule cv_mean_score_unit_interval)
    moreover have "scores + a \<le> s \<and> s \<le> scores + a + real (length (filter (\<lambda>(covar, unique_covars). length unique_covars > 1) ces))"
      using r by (rule Cons.IH)
    ultimately show ?thesis using True by (simp add: ce)
  qed
qed

lemma cv_mean_score_Inr:
  "cv_mean_score sk feats y k calls = (Inr s, calls') \<Longrightarrow>
   \<exists>folds. cross_val_score sk (fit_transform sk feats) y k = Inr folds \<and> s = np_mean folds"
  by (auto simp: cv_mean_score_def Let_def split: sum.splits)

lemma covar_scores_loop_sum:
  "covar_scores_loop sk t feats ces scores calls = (Inr s, calls') \<Longrightarrow>
   \<exists>fcs. map (covar_folds sk t feats) (filter (\<lambda>(covar, unique_covars). length unique_covars > 1) ces) = map Inr fcs
        \<and> s = scores + sum_list (map np_mean fcs)"
proof (induction ces arbitrary: scores calls)
  case Nil
  then show ?case by simp
next
  case (Cons ce ces)
  obtain covar unique_covars where ce: "ce = (covar, unique_covars)" by (cases ce)
  show ?case
  proof (cases "length unique_covars > 1")
    case False
    then have "covar_scores_loop sk t feats ces scores calls = (Inr s, calls')"
      using Cons.prems by (simp add: ce)
    from Cons.IH[OF this] show ?thesis using False by (simp add: ce)
  next
    case True
    from Cons.prems True obtain target a calls1 where
      tg: "covars t covar = Some target"
      and a: "cv_mean_score sk feats (concat target) (min 5 (length (np_unique (concat target)))) calls = (Inr a, calls1)"
      and r: "covar_scores_loop sk t feats ces (scores + a) calls1 = (Inr s, calls')"
      by (auto simp: ce Let_def split: option.splits prod.splits sum.splits)
    from cv_mean_score_Inr[OF a] obtain folds where
      f: "cross_val_score sk (fit_transform sk feats) (concat target) (min 5 (length (np_unique (concat target)))) = Inr folds"
      and af: "a = np_mean folds" by blast
    from Cons.IH[OF r] obtain fcs where
      m: "map (covar_folds sk t feats) (filter (\<lambda>(covar, unique_covars). length unique_covars > 1) ces) = map Inr fcs"
      and s: "s = scores + a + sum_list (map np_mean fcs)" by blast
    have "covar_folds sk t feats ce = Inr folds"
      by (simp add: covar_folds_def ce tg f)
    then have "map (covar_folds sk t feats) (filter (\<lambda>(covar, unique_covars). length unique_covars > 1) (ce # ces)) = map Inr (folds # fcs)"
      using True m by (simp add: ce)
    moreover have "s = scores + sum_list (map np_mean (folds # fcs))"
      using s af by simp
    ultimately show ?thesis by blast
  qed
qed

text \<open>
  C7, as the code has it. Whenever \<open>disentanglement\<close> returns, each of its two scores
  is a sum over the labels: the mean of the fold scores of the perturbation label plus
  the mean of the fold scores of every covariate with more than one registered value,
  fitted on the basal latent for the first score and on the combined latent for the
  second. With fold scores in \<open>[0,1]\<close>, each score lies between 0 and 1 plus the number
  of those covariates.
\<close>

theorem disentanglement_scores_are_sums:
  assumes "\<forall>feats y k folds. cross_val_score sk feats y k = Inr folds
             \<longrightarrow> folds \<noteq> [] \<and> list_all (\<lambda>s. 0 \<le> s \<and> s \<le> 1) folds"
    and "fst (disentanglement sk m t inf_out) = Inr (s, p)"
  shows "\<exists>fd fcs gd gcs.
      cross_val_score sk (fit_transform sk (latent_basal inf_out)) (concat (drug_name t))
        (min 5 (length (np_unique (concat (drug_name t))))) = Inr fd
    \<and> map (covar_folds sk t (latent_basal inf_out)) (scored_covars m) = map Inr fcs
    \<and> s = np_mean fd + sum_list (map np_mean fcs)
    \<and> cross_val_score sk (fit_transform sk (latent inf_out)) (concat (drug_name t)) 5 = Inr gd
    \<and> map (covar_folds sk t (latent inf_out)) (scored_covars m) = map Inr gcs
    \<and> p = np_mean gd + sum_list (map np_mean gcs)
    \<and> 0 \<le> s \<and> s \<le> 1 + real (length (scored_covars m))
    \<and> 0 \<le> p \<and> p \<le> 1 + real (length (scored_covars m))"
proof -
  have orc: "\<And>feats y k folds. cross_val_score sk feats y k = Inr folds
               \<Longrightarrow> folds \<noteq> [] \<and> list_all (\<lambda>s. 0 \<le> s \<and> s \<le> 1) folds"
    using assms(1) by blast
  let ?names = "concat (drug_name t)"
  from assms(2) obtain s0 c1 c2 p0 c3 c4 where
    a1: "cv_mean_score sk (latent_basal inf_out) ?names (min 5 (length (np_unique ?names))) [] = (Inr s0, c1)"
    and a2: "covar_scores_loop sk t (latent_basal inf_out) (covars_encoder m) s0 c1 = (Inr s, c2)"
    and a3: "cv_mean_score sk (latent inf_out) ?names 5 c2 = (Inr p0, c3)"
    and a4: "covar_scores_loop sk t (latent inf_out) (covars_encoder m) p0 c3 = (Inr p, c4)"
    by (auto simp: disentanglement_def Let_def split: prod.splits sum.splits)
  from cv_mean_score_Inr[OF a1] obtain fd where
    fd: "cross_val_score sk (fit_transform sk (latent_basal inf_out)) ?names (min 5 (length (np_unique ?names))) = Inr fd"
    and s0: "s0 = np_mean fd" by blast
  from cv_mean_score_Inr[OF a3] obtain gd where
    gd: "cross_val_score sk (fit_transform sk (latent inf_out)) ?names 5 = Inr gd"
    and p0: "p0 = np_mean gd" by blast
  from covar_scores_loop_sum[OF a2] obtain fcs where
    fcs: "map (covar_folds sk t (latent_basal inf_out)) (scored_covars m) = map Inr fcs"
    and s: "s = s0 + sum_list (map np_mean fcs)"
    unfolding scored_covars_def by blast
  from covar_scores_loop_sum[OF a4] obtain gcs where
    gcs: "map (covar_folds sk t (latent inf_out)) (scored_covars m) = map Inr gcs"
    and p: "p = p0 + sum_list (map np_mean gcs)"
    unfolding scored_covars_def by blast
  have b1: "0 \<le> s0 \<and> s0 \<le> 1" using orc a1 by (rule cv_mean_score_unit_interval)
  have b2: "0 \<le> p0 \<and> p0 \<le> 1" using orc a3 by (rule cv_mean_score_unit_interval)
  have b3: "s0 \<le> s \<and> s \<le> s0 + real (length (scored_covars m))"
    unfolding scored_covars_def using orc a2 by (rule covar_scores_loop_bounds)
  have b4: "p0 \<le> p \<and> p \<le> p0 + real (length (scored_covars m))"
    unfolding scored_covars_def using orc a4 by (rule covar_scores_loop_bounds)
  have bs: "0 \<le> s \<and> s \<le> 1 + real (length (scored_covars m))" using b1 b3 by linarith
  have bp: "0 \<le> p \<and> p \<le> 1 + real (length (scored_covars m))" using b2 b4 by linarith
  show ?thesis
    using fd fcs s[unfolded s0] gd gcs p[unfolded p0] bs bp by blast
qed

lemma sk_separable_scores:
  "cross_val_score sk_separable feats y k = Inr folds \<Longrightarrow> folds \<noteq> [] \<and> list_all (\<lambda>s. 0 \<le> s \<and> s \<le> 1) folds"
  by (auto simp: sk_separable_def list_all_iff split: if_splits)

lemma eval_run:
  "toy_module ''gauss'' ''cell_type'' = Inr m \<Longrightarrow>
   fst (disentanglement sk_separable m eval_tensors eval_inference_outputs) = Inr (2, 2)"
  by (auto simp: toy_defs sk_separable_def eval_tensors_def eval_inference_outputs_def
        disentanglement_def cv_mean_score_def np_mean_def np_unique_def Let_def eval_nat_numeral)

text \<open>
  On the ten-cell batch with one covariate of two registered values, each score is
  \<open>1 + 1\<close>: the fold scores are \<open>[1, 1]\<close> for the two-fold fits and five times 1 for
  the five-fold fit.
\<close>

theorem disentanglement_scores_are_sums_witness:
  "\<exists>m. toy_module ''gauss'' ''cell_type'' = Inr m
     \<and> fst (disentanglement sk_separable m eval_tensors eval_inference_outputs) = Inr (2, 2)
     \<and> scored_covars m = [(''cell_type'', [''A'', ''B''])]
     \<and> cross_val_score sk_separable (fit_transform sk_separable (latent_basal eval_inference_outputs))
          (concat (drug_name eval_tensors)) 2 = Inr [1, 1]
     \<and> covar_folds sk_separable eval_tensors (latent_basal eval_inference_outputs)
          (''cell_type'', [''A'', ''B'']) = Inr [1, 1]
     \<and> cross_val_score sk_separable (fit_transform sk_separable (latent eval_inference_outputs))
          (concat (drug_name eval_tensors)) 5 = Inr [1, 1, 1, 1, 1]
     \<and> (2::real) = np_mean [1, 1] + sum_list (map np_mean [[1, 1]])
     \<and> (2::real) \<le> 1 + real (length [(''cell_type'', [''A'', ''B''])])"
proof -
  obtain m where m: "toy_module ''gauss'' ''cell_type'' = Inr m"
    and ce: "covars_encoder m = [(''cell_type'', [''A'', ''B''])]"
    by (simp add: toy_defs)
  have d: "fst (disentanglement sk_separable m eval_tensors eval_inference_outputs) = Inr (2, 2)"
    using m by (rule eval_run)
  have sc: "scored_covars m = [(''cell_type'', [''A'', ''B''])]"
    by (simp add: scored_covars_def ce)
  have rest: "cross_val_score sk_separable (fit_transform sk_separable (latent_basal eval_inference_outputs))
          (concat (drug_name eval_tensors)) 2 = Inr [1, 1]
     \<and> covar_folds sk_separable eval_tensors (latent_basal eval_inference_outputs)
          (''cell_type'', [''A'', ''B'']) = Inr [1, 1]
     \<and> cross_val_score sk_separable (fit_transform sk_separable (latent eval_inference_outputs))
          (concat (drug_name eval_tensors)) 5 = Inr [1, 1, 1, 1, 1]
     \<and> (2::real) = np_mean [1, 1] + sum_list (map np_mean [[1, 1]])"
    by (simp add: sk_separable_def eval_tensors_def eval_inference_outputs_def covar_folds_def
          np_mean_def np_unique_def eval_nat_numeral)
  have orc: "\<forall>feats y k folds. cross_val_score sk_separable feats y k = Inr folds
               \<longrightarrow> folds \<noteq> [] \<and> list_all (\<lambda>s. 0 \<le> s \<and> s \<le> 1) folds"
    using sk_separable_scores by blast
  have "(2::real) \<le> 1 + real (length (scored_covars m))"
    using disentanglement_scores_are_sums[of sk_separable m eval_tensors eval_inference_outputs 2 2,
            OF orc d]
    by blast
  then have "(2::real) \<le> 1 + real (length [(''cell_type'', [''A'', ''B''])])"
    unfolding sc .
  then show ?thesis
    using m d sc rest by blast
qed

text \<open>
  C7, as stated, says that both scores lie in \<open>[0,1]\<close>. On the ten-cell batch, whose
  perturbation labels and covariate codes have two distinct values each, both scores
  are 2.
\<close>

theorem disentanglement_scores_exceed_one:
  "\<exists>m s p. toy_module ''gauss'' ''cell_type'' = Inr m
     \<and> length (np_unique (concat (drug_name eval_tensors))) = 2
     \<and> length (np_unique (concat (the (covars eval_tensors ''cell_type'')))) = 2
     \<and> fst (disentanglement sk_separable m eval_tensors eval_inference_outputs) = Inr (s, p)
     \<and> \<not> s \<le> 1 \<and> \<not> p \<le> 1"
proof -
  obtain m where m: "toy_module ''gauss'' ''cell_type'' = Inr m"
    by (simp add: toy_defs)
  have "length (np_unique (concat (drug_name eval_tensors))) = 2"
    and "length (np_unique (concat (the (covars eval_tensors ''cell_type'')))) = 2"
    by (simp_all add: eval_tensors_def np_unique_def)
  then show ?thesis
    using m eval_run[OF m] by auto
qed

section \<open>The masks of differentially expressed genes are one array twice\<close>

lemma set_np_unique: "set (np_unique xs) = set xs"
  by (simp add: np_unique_def)

lemma cov_cond_loop_dom:
  "dom (fst (cov_cond_loop v u n ks (a, b))) = dom a \<union> set ks"
  by (induction ks arbitrary: a b) (auto split: option.splits simp: Let_def)

lemma cov_cond_loop_length:
  assumes "\<And>k r. a k = Some r \<Longrightarrow> length r = length v"
    and "fst (cov_cond_loop v u n ks (a, b)) k = Some r"
  shows "length r = length v"
  using assms
proof (induction ks arbitrary: a b)
  case Nil
  then show ?case by simp
next
  case (Cons c ks)
  show ?case
  proof (cases "u c")
    case None
    have "fst (cov_cond_loop v u n ks (a(c \<mapsto> replicate (length v) 1), b(c \<mapsto> replicate (length v) 1))) k = Some r"
      using Cons.prems(2) None by (simp add: Let_def)
    moreover have "\<And>k r. (a(c \<mapsto> replicate (length v) 1)) k = Some r \<Longrightarrow> length r = length v"
      using Cons.prems(1) by (auto split: if_splits)
    ultimately show ?thesis by (rule Cons.IH[rotated])
  next
    case (Some degs)
    have "fst (cov_cond_loop v u n ks (a(c \<mapsto> isin v degs), b(c \<mapsto> isin v (py_slice_to n degs)))) k = Some r"
      using Cons.prems(2) Some by (simp add: Let_def)
    moreover have "\<And>k r. (a(c \<mapsto> isin v degs)) k = Some r \<Longrightarrow> length r = length v"
      using Cons.prems(1) by (auto split: if_splits simp: isin_def)
    ultimately show ?thesis by (rule Cons.IH[rotated])
  qed
qed

lemma getitems_total:
  "set ks \<subseteq> dom d \<Longrightarrow> getitems d ks = Inr (map (\<lambda>k. the (d k)) ks)"
  by (induction ks) auto

text \<open>
  C9. With a \<open>deg_uns_key\<close> supplied, \<open>setup_anndata\<close> stacks both \<open>deg_mask\<close> and
  \<open>deg_mask_r2\<close> from lookups in \<open>cov_cond_map\<close>, so the two stored arrays are equal,
  row by row; the table \<open>cov_cond_map_r2\<close> restricted to the first \<open>n_deg_r2\<close> genes
  is built but not read. With at least one cell the block stores the masks, one row of
  gene-count width per cell.
\<close>

theorem deg_mask_r2_equals_deg_mask:
  "(\<forall>r. setup_anndata_deg var_names uns obs_cat n = Inr r \<longrightarrow> deg_mask_r2 r = deg_mask r)
   \<and> (obs_cat \<noteq> [] \<longrightarrow>
        (\<exists>r. setup_anndata_deg var_names uns obs_cat n = Inr r
           \<and> length (deg_mask r) = length obs_cat
           \<and> list_all (\<lambda>row. length row = length var_names) (deg_mask r)))"
proof (intro conjI allI impI)
  fix r
  assume "setup_anndata_deg var_names uns obs_cat n = Inr r"
  then show "deg_mask_r2 r = deg_mask r"
    by (auto simp: setup_anndata_deg_def Let_def split: prod.splits sum.splits)
next
  assume ne: "obs_cat \<noteq> []"
  obtain t1 t2 where t: "cov_cond_loop var_names uns n (np_unique obs_cat) (Map.empty, Map.empty) = (t1, t2)"
    by (cases "cov_cond_loop var_names uns n (np_unique obs_cat) (Map.empty, Map.empty)")
  have d: "dom t1 = set obs_cat"
    using cov_cond_loop_dom[of var_names uns n "np_unique obs_cat" Map.empty Map.empty] t
    by (simp add: set_np_unique)
  let ?rows = "map (\<lambda>k. the (t1 k)) obs_cat"
  have g: "getitems t1 obs_cat = Inr ?rows"
    using d by (intro getitems_total) simp
  have len: "length row = length var_names" if "row \<in> set ?rows" for row
  proof -
    from that obtain k where "k \<in> set obs_cat" "row = the (t1 k)" by auto
    with d obtain r' where "t1 k = Some r'" "row = r'" by auto
    then show ?thesis
      using cov_cond_loop_length[of Map.empty var_names uns n "np_unique obs_cat" Map.empty k row] t
      by simp
  qed
  have "list_all (\<lambda>r. length r = length (hd ?rows)) ?rows"
    unfolding list_all_iff
  proof
    fix r assume "r \<in> set ?rows"
    moreover have "hd ?rows \<in> set ?rows" using ne by (intro hd_in_set) simp
    ultimately show "length r = length (hd ?rows)" using len by metis
  qed
  then have v: "np_vstack ?rows = Inr ?rows"
    using ne by (simp add: np_vstack_def)
  have "setup_anndata_deg var_names uns obs_cat n = Inr \<lparr>deg_mask = ?rows, deg_mask_r2 = ?rows\<rparr>"
    by (simp add: setup_anndata_deg_def t g v)
  moreover have "list_all (\<lambda>row. length row = length var_names) ?rows"
    unfolding list_all_iff using len by blast
  ultimately show "\<exists>r. setup_anndata_deg var_names uns obs_cat n = Inr r
           \<and> length (deg_mask r) = length obs_cat
           \<and> list_all (\<lambda>row. length row = length var_names) (deg_mask r)"
    by simp
qed

text \<open>
  Two cells, three genes, \<open>n_deg_r2 = 1\<close>: the restricted table differs from the full
  one at \<open>A_drug\<close>, the two masks do not.
\<close>

theorem deg_mask_r2_equals_deg_mask_witness:
  "\<exists>r t1 t2. setup_anndata_deg [''g1'', ''g2'', ''g3''] [''A_drug'' \<mapsto> [''g1'', ''g2'']] [''A_drug'', ''B_ctrl''] 1 = Inr r
     \<and> deg_mask_r2 r = deg_mask r
     \<and> deg_mask r = [[1, 1, 0], [1, 1, 1]]
     \<and> cov_cond_loop [''g1'', ''g2'', ''g3''] [''A_drug'' \<mapsto> [''g1'', ''g2'']] 1 (np_unique [''A_drug'', ''B_ctrl'']) (Map.empty, Map.empty) = (t1, t2)
     \<and> t1 ''A_drug'' = Some [1, 1, 0] \<and> t2 ''A_drug'' = Some [1, 0, 0]"
  using deg_mask_r2_equals_deg_mask [of "[''g1'', ''g2'', ''g3'']" "[''A_drug'' \<mapsto> [''g1'', ''g2'']]" "[''A_drug'', ''B_ctrl'']" 1]
  by (simp add: setup_anndata_deg_def np_unique_def isin_def py_slice_to_def np_vstack_def Let_def)

section \<open>The perturbation vocabulary\<close>

lemma update_fresh: "k \<notin> fst ` set al \<Longrightarrow> AList.update k v al = al @ [(k, v)]"
  by (induction al) auto

lemma dict_of_enumerate:
  "distinct xs \<Longrightarrow> set xs \<inter> fst ` set acc = {} \<Longrightarrow>
   fold (\<lambda>(i, pert) d. AList.update pert i d) (enumerate k xs) acc = acc @ zip xs [k..<k + length xs]"
proof (induction xs arbitrary: k acc)
  case Nil
  then show ?case by simp
next
  case (Cons x xs)
  have fresh: "x \<notin> fst ` set acc" using Cons.prems(2) by auto
  have "fold (\<lambda>(i, pert) d. AList.update pert i d) (enumerate k (x # xs)) acc
        = fold (\<lambda>(i, pert) d. AList.update pert i d) (enumerate (Suc k) xs) (acc @ [(x, k)])"
    using fresh by (simp add: update_fresh)
  also have "\<dots> = (acc @ [(x, k)]) @ zip xs [Suc k..<Suc k + length xs]"
    using Cons.prems by (intro Cons.IH) auto
  also have "\<dots> = acc @ zip (x # xs) [k..<k + length (x # xs)]"
    by (simp del: upt_Suc add: upt_conv_Cons)
  finally show ?case .
qed

lemma distinct_fold_insert: "distinct acc \<Longrightarrow> distinct (fold List.insert xs acc)"
  by (induction xs arbitrary: acc) auto

lemma set_fold_insert: "set (fold List.insert xs acc) = set xs \<union> set acc"
  by (induction xs arbitrary: acc) auto

lemma distinct_fold_fold_insert:
  "distinct acc \<Longrightarrow> distinct (fold (\<lambda>d names. fold List.insert (f d) names) ds acc)"
  by (induction ds arbitrary: acc) (auto simp: distinct_fold_insert)

lemma set_fold_fold_insert:
  "set (fold (\<lambda>d names. fold List.insert (f d) names) ds acc) = (\<Union>d\<in>set ds. set (f d)) \<union> set acc"
  by (induction ds arbitrary: acc) (auto simp: set_fold_insert)

lemma distinct_collect_perts: "distinct (collect_perts ps c)"
  by (simp add: collect_perts_def distinct_fold_fold_insert)

lemma set_collect_perts:
  "set (collect_perts ps c) = {i. \<exists>d\<in>set ps. i \<in> set (str_split CHR ''+'' d) \<and> i \<noteq> c}"
  by (auto simp: collect_perts_def set_fold_fold_insert np_unique_def)

lemma map_of_zip_upt:
  "distinct xs \<Longrightarrow> i < length xs \<Longrightarrow> map_of (zip xs [0..<length xs]) (xs ! i) = Some i"
  using map_of_zip_nth[of xs "[0..<length xs]" i] by simp

lemma bij_betw_index:
  assumes "distinct xs"
  shows "bij_betw (\<lambda>p. the (map_of (zip xs [0..<length xs]) p)) (set xs) {0..<length xs}"
proof (rule bij_betw_byWitness[where f' = "\<lambda>i. xs ! i"])
  show "\<forall>a\<in>set xs. xs ! the (map_of (zip xs [0..<length xs]) a) = a"
    using assms by (auto simp: in_set_conv_nth map_of_zip_upt)
  show "\<forall>a'\<in>{0..<length xs}. the (map_of (zip xs [0..<length xs]) (xs ! a')) = a'"
    using assms by (simp add: map_of_zip_upt)
  show "(\<lambda>p. the (map_of (zip xs [0..<length xs]) p)) ` set xs \<subseteq> {0..<length xs}"
    using assms by (auto simp: in_set_conv_nth map_of_zip_upt)
  show "(!) xs ` {0..<length xs} \<subseteq> set xs"
    by auto
qed

text \<open>
  When \<open>setup_anndata\<close> builds a fresh vocabulary (\<open>cls.pert_encoder\<close> is \<open>None\<close>)
  and \<open>'<PAD>'\<close> is neither the control group nor a perturbation name of the data, the
  dictionary \<open>pert_encoder\<close> lists \<open>'<PAD>'\<close>, the control group and then the
  remaining names in sorted order against the indices \<open>0, 1, 2, ...\<close>: \<open>'<PAD>'\<close> has
  index 0, the control group index 1, the \<open>k\<close>-th remaining name index \<open>k + 2\<close>, the
  mapping is a bijection from its keys onto \<open>0..n-1\<close>, and \<open>PADDING_IDX\<close> is set to 0.
\<close>

lemma fresh_pert_encoder_layout:
  assumes "control_group \<noteq> ''<PAD>''"
    and "''<PAD>'' \<notin> set (collect_perts perturbations control_group)"
  shows "\<exists>rest enc.
      rest = sort (collect_perts perturbations control_group)
    \<and> enc = pert_encoder (setup_anndata_perts None pad perturbations control_group)
    \<and> sorted rest \<and> distinct rest
    \<and> set rest = {i. \<exists>d\<in>set perturbations. i \<in> set (str_split CHR ''+'' d) \<and> i \<noteq> control_group}
    \<and> enc = zip (''<PAD>'' # control_group # rest) [0..<length rest + 2]
    \<and> map_of enc ''<PAD>'' = Some 0
    \<and> map_of enc control_group = Some 1
    \<and> (\<forall>k<length rest. map_of enc (rest ! k) = Some (k + 2))
    \<and> bij_betw (\<lambda>p. the (map_of enc p)) (fst ` set enc) {0..<length enc}
    \<and> PADDING_IDX (setup_anndata_perts None pad perturbations control_group) = 0"
proof -
  define rest where "rest = sort (collect_perts perturbations control_group)"
  define names where "names = ''<PAD>'' # control_group # rest"
  define enc where "enc = pert_encoder (setup_anndata_perts None pad perturbations control_group)"
  have s: "sorted rest" and dr: "distinct rest"
    by (simp_all add: rest_def distinct_collect_perts)
  have sr: "set rest = {i. \<exists>d\<in>set perturbations. i \<in> set (str_split CHR ''+'' d) \<and> i \<noteq> control_group}"
    by (simp add: rest_def set_collect_perts)
  have dn: "distinct names"
    using assms dr sr by (auto simp: names_def rest_def)
  have e: "enc = zip names [0..<length names]"
    using dict_of_enumerate[OF dn, of "[]" 0]
    by (simp add: enc_def setup_anndata_perts_def names_def rest_def Let_def)
  have idx: "map_of enc (names ! i) = Some i" if "i < length names" for i
    using map_of_zip_upt[OF dn that] e by simp
  have p0: "map_of enc ''<PAD>'' = Some 0"
    using idx[of 0] by (simp add: names_def)
  have p1: "map_of enc control_group = Some 1"
    using idx[of 1] by (simp add: names_def)
  have pk: "\<forall>k<length rest. map_of enc (rest ! k) = Some (k + 2)"
  proof (intro allI impI)
    fix k assume "k < length rest"
    then show "map_of enc (rest ! k) = Some (k + 2)"
      using idx[of "k + 2"] by (simp add: names_def)
  qed
  have "map fst enc = names"
    by (simp add: e)
  then have keys: "fst ` set enc = set names"
    by (metis set_map)
  have len: "length enc = length names"
    by (simp add: e)
  have b: "bij_betw (\<lambda>p. the (map_of enc p)) (fst ` set enc) {0..<length enc}"
    using bij_betw_index[OF dn] unfolding keys len unfolding e by simp
  have pad0: "PADDING_IDX (setup_anndata_perts None pad perturbations control_group) = 0"
    by (simp add: setup_anndata_perts_def Let_def)
  have e': "enc = zip (''<PAD>'' # control_group # rest) [0..<length rest + 2]"
    using e by (simp add: names_def)
  show ?thesis
    using s dr sr e' p0 p1 pk b pad0 unfolding rest_def enc_def by blast
qed

lemma fresh_pert_encoder_layout_example:
  "''ctrl'' \<noteq> ''<PAD>''
   \<and> ''<PAD>'' \<notin> set (collect_perts [''ctrl'', ''drugB+drugA'', ''drugA'', ''ctrl+drugC''] ''ctrl'')
   \<and> pert_encoder (setup_anndata_perts None 7 [''ctrl'', ''drugB+drugA'', ''drugA'', ''ctrl+drugC''] ''ctrl'')
       = [(''<PAD>'', 0), (''ctrl'', 1), (''drugA'', 2), (''drugB'', 3), (''drugC'', 4)]
   \<and> PADDING_IDX (setup_anndata_perts None 7 [''ctrl'', ''drugB+drugA'', ''drugA'', ''ctrl+drugC''] ''ctrl'') = 0"
proof -
  have c: "collect_perts [''ctrl'', ''drugB+drugA'', ''drugA'', ''ctrl+drugC''] ''ctrl'' = [''drugB'', ''drugA'', ''drugC'']"
    by (simp add: collect_perts_def np_unique_def)
  have h1: "''ctrl'' \<noteq> ''<PAD>''" by simp
  have h2: "''<PAD>'' \<notin> set (collect_perts [''ctrl'', ''drugB+drugA'', ''drugA'', ''ctrl+drugC''] ''ctrl'')"
    by (simp add: c)
  show ?thesis
    using fresh_pert_encoder_layout[OF h1 h2, of 7] h1 h2 by (simp add: c upt_conv_Cons)
qed

text \<open>
  C10 says that a fresh vocabulary maps \<open>'<PAD>'\<close> to 0, the control group to 1 and the
  remaining names to \<open>2..n-1\<close>, a bijection onto \<open>0..n-1\<close>. The names collected from
  the data are cleared of the control group but not of \<open>'<PAD>'\<close>: with a perturbation
  named \<open><PAD>\<close> in the data the list \<open>perts_names_unique\<close> holds the token twice, the
  dictionary comprehension keeps its last position, and \<open>'<PAD>'\<close> gets index 2 while
  \<open>PADDING_IDX\<close> is 0. No name has index 0, and the three names have the indices 2, 1
  and 3.
\<close>

theorem setup_anndata_perts_pad_name_in_data:
  "perts_names_unique (setup_anndata_perts None 7 [''ctrl'', ''<PAD>'', ''drugA''] ''ctrl'')
     = [''<PAD>'', ''ctrl'', ''<PAD>'', ''drugA'']
   \<and> pert_encoder (setup_anndata_perts None 7 [''ctrl'', ''<PAD>'', ''drugA''] ''ctrl'')
     = [(''<PAD>'', 2), (''ctrl'', 1), (''drugA'', 3)]
   \<and> PADDING_IDX (setup_anndata_perts None 7 [''ctrl'', ''<PAD>'', ''drugA''] ''ctrl'') = 0
   \<and> map_of (pert_encoder (setup_anndata_perts None 7 [''ctrl'', ''<PAD>'', ''drugA''] ''ctrl'')) ''<PAD>''
     = Some 2
   \<and> \<not> bij_betw
         (\<lambda>p. the (map_of (pert_encoder (setup_anndata_perts None 7 [''ctrl'', ''<PAD>'', ''drugA''] ''ctrl'')) p))
         (fst ` set (pert_encoder (setup_anndata_perts None 7 [''ctrl'', ''<PAD>'', ''drugA''] ''ctrl'')))
         {0..<length (pert_encoder (setup_anndata_perts None 7 [''ctrl'', ''<PAD>'', ''drugA''] ''ctrl''))}"
proof -
  have e: "setup_anndata_perts None 7 [''ctrl'', ''<PAD>'', ''drugA''] ''ctrl''
      = \<lparr>perts_names_unique = [''<PAD>'', ''ctrl'', ''<PAD>'', ''drugA''],
         pert_encoder = [(''<PAD>'', 2), (''ctrl'', 1), (''drugA'', 3)],
         PADDING_IDX = 0\<rparr>"
    by (simp add: setup_anndata_perts_def collect_perts_def np_unique_def Let_def enumerate_eq_zip
          upt_conv_Cons)
  have "(0::nat) \<in> {0..<length [(''<PAD>'', 2::nat), (''ctrl'', 1), (''drugA'', 3)]}"
    by simp
  moreover have "(0::nat) \<notin> (\<lambda>p. the (map_of [(''<PAD>'', 2::nat), (''ctrl'', 1), (''drugA'', 3)] p))
                    ` fst ` set [(''<PAD>'', 2::nat), (''ctrl'', 1), (''drugA'', 3)]"
    by simp
  ultimately have "\<not> bij_betw (\<lambda>p. the (map_of [(''<PAD>'', 2::nat), (''ctrl'', 1), (''drugA'', 3)] p))
                    (fst ` set [(''<PAD>'', 2::nat), (''ctrl'', 1), (''drugA'', 3)])
                    {0..<length [(''<PAD>'', 2::nat), (''ctrl'', 1), (''drugA'', 3)]}"
    unfolding bij_betw_def by blast
  then show ?thesis
    unfolding e by simp
qed

text \<open>A control group named \<open><PAD>\<close> takes the token to index 1.\<close>

lemma control_group_named_pad:
  "pert_encoder (setup_anndata_perts None 7 [''<PAD>'', ''drugA''] ''<PAD>'')
     = [(''<PAD>'', 1), (''drugA'', 2)]"
  by (simp add: setup_anndata_perts_def collect_perts_def np_unique_def Let_def enumerate_eq_zip
        upt_conv_Cons)

end
